theory Spec2Isabelle
  imports Complex_Main
begin

section \<open>Arrays\<close>

text \<open>
  The program (\<^verbatim>\<open>src/nn.py\<close>) is a two-layer classifier written over NumPy arrays of
  64-bit floats. The embedding of the network idealises the floats to the real
  numbers: rounding, overflow, \<^verbatim>\<open>inf\<close> and \<^verbatim>\<open>nan\<close> have no counterpart there. Where NumPy would go on
  with \<^verbatim>\<open>nan\<close> or \<^verbatim>\<open>inf\<close> after a division by zero (it only prints a warning), the
  model stops with \<open>NonFinite\<close>: from there on the run is outside the idealisation.
  The two activation functions, whose ranges are decided by rounding, are embedded a
  second time over the floats themselves (see the section on 64-bit floats).

  Every exception NumPy or Python raises on the paths modelled is a value of \<open>error\<close>.
\<close>

datatype error = ValueError | ZeroDivisionError | NonFinite

definition ebind :: "error + 'a \<Rightarrow> ('a \<Rightarrow> error + 'b) \<Rightarrow> error + 'b" where
  "ebind m f = (case m of Inl e \<Rightarrow> Inl e | Inr x \<Rightarrow> f x)"

text \<open>
  A two-dimensional array is its list of rows together with its number of columns
  (an array of shape \<open>(0, c)\<close> has no row but still \<open>c\<close> columns). A one-dimensional
  array is a list.
\<close>

record matrix =
  ncols :: nat
  rows :: "real list list"

type_synonym vector = "real list"

definition nrows :: "matrix \<Rightarrow> nat" where
  "nrows m = length (rows m)"

definition wf_matrix :: "matrix \<Rightarrow> bool" where
  "wf_matrix m = list_all (\<lambda>r. length r = ncols m) (rows m)"

definition entry :: "matrix \<Rightarrow> nat \<Rightarrow> nat \<Rightarrow> real" where
  "entry m i j = rows m ! i ! j"

definition mk :: "nat \<Rightarrow> nat \<Rightarrow> (nat \<Rightarrow> nat \<Rightarrow> real) \<Rightarrow> matrix" where
  "mk r c f = \<lparr>ncols = c, rows = map (\<lambda>i. map (f i) [0..<c]) [0..<r]\<rparr>"

definition map_matrix :: "(real \<Rightarrow> real) \<Rightarrow> matrix \<Rightarrow> matrix" where
  "map_matrix f m = mk (nrows m) (ncols m) (\<lambda>i j. f (entry m i j))"

text \<open>A one-dimensional array of length \<open>k\<close> broadcasts against a matrix as shape \<open>(1, k)\<close>.\<close>

definition row_vector :: "vector \<Rightarrow> matrix" where
  "row_vector v = mk 1 (length v) (\<lambda>i j. v ! j)"

text \<open>
  NumPy broadcasting of one axis: equal lengths, or one of them is 1 and is stretched.
\<close>

definition broadcast_dim :: "nat \<Rightarrow> nat \<Rightarrow> error + nat" where
  "broadcast_dim a b =
     (if a = b then Inr a else if a = 1 then Inr b else if b = 1 then Inr a
      else Inl ValueError)"

definition bidx :: "nat \<Rightarrow> nat \<Rightarrow> nat" where
  "bidx d i = (if d = 1 then 0 else i)"

definition broadcast2 :: "(real \<Rightarrow> real \<Rightarrow> real) \<Rightarrow> matrix \<Rightarrow> matrix \<Rightarrow> error + matrix" where
  "broadcast2 f a b =
     ebind (broadcast_dim (nrows a) (nrows b)) (\<lambda>r.
     ebind (broadcast_dim (ncols a) (ncols b)) (\<lambda>c.
       Inr (mk r c (\<lambda>i j. f (entry a (bidx (nrows a) i) (bidx (ncols a) j))
                            (entry b (bidx (nrows b) i) (bidx (ncols b) j))))))"

text \<open>
  An in-place operator (\<^verbatim>\<open>a += b\<close>, \<^verbatim>\<open>a -= b\<close>) keeps the shape of \<open>a\<close>: \<open>b\<close> must
  broadcast to it.
\<close>

definition inplace2 :: "(real \<Rightarrow> real \<Rightarrow> real) \<Rightarrow> matrix \<Rightarrow> matrix \<Rightarrow> error + matrix" where
  "inplace2 f a b =
     (if (nrows b = nrows a \<or> nrows b = 1) \<and> (ncols b = ncols a \<or> ncols b = 1)
      then Inr (mk (nrows a) (ncols a)
                  (\<lambda>i j. f (entry a i j) (entry b (bidx (nrows b) i) (bidx (ncols b) j))))
      else Inl ValueError)"

definition inplace1 :: "(real \<Rightarrow> real \<Rightarrow> real) \<Rightarrow> vector \<Rightarrow> vector \<Rightarrow> error + vector" where
  "inplace1 f a b =
     (if length b = length a \<or> length b = 1
      then Inr (map (\<lambda>j. f (a ! j) (b ! bidx (length b) j)) [0..<length a])
      else Inl ValueError)"

text \<open>\<^verbatim>\<open>a.dot(b)\<close> on two-dimensional arrays, and \<^verbatim>\<open>a.T\<close>.\<close>

definition dot :: "matrix \<Rightarrow> matrix \<Rightarrow> error + matrix" where
  "dot a b =
     (if ncols a = nrows b
      then Inr (mk (nrows a) (ncols b) (\<lambda>i j. \<Sum>k\<leftarrow>[0..<ncols a]. entry a i k * entry b k j))
      else Inl ValueError)"

definition transposed :: "matrix \<Rightarrow> matrix" where
  "transposed a = mk (ncols a) (nrows a) (\<lambda>i j. entry a j i)"

text \<open>
  Reductions. \<^verbatim>\<open>np.max\<close> has no identity, so reducing an axis of length 0 raises
  \<^verbatim>\<open>ValueError\<close>; \<^verbatim>\<open>np.sum\<close> of nothing is 0.
\<close>

definition row_of :: "matrix \<Rightarrow> nat \<Rightarrow> real list" where
  "row_of m i = map (entry m i) [0..<ncols m]"

definition col_of :: "matrix \<Rightarrow> nat \<Rightarrow> real list" where
  "col_of m j = map (\<lambda>i. entry m i j) [0..<nrows m]"

definition max_axis1 :: "matrix \<Rightarrow> error + matrix" where
  "max_axis1 x =
     (if ncols x = 0 then Inl ValueError
      else Inr (mk (nrows x) 1 (\<lambda>i j. Max (set (row_of x i)))))"

definition sum_axis1 :: "matrix \<Rightarrow> matrix" where
  "sum_axis1 x = mk (nrows x) 1 (\<lambda>i j. sum_list (row_of x i))"

definition sum_axis0 :: "matrix \<Rightarrow> vector" where
  "sum_axis0 x = map (\<lambda>j. sum_list (col_of x j)) [0..<ncols x]"

definition sum_all :: "matrix \<Rightarrow> real" where
  "sum_all x = sum_list (map (\<lambda>i. sum_list (row_of x i)) [0..<nrows x])"

section \<open>Activation functions\<close>

text \<open>
  \<^verbatim>\<open>
  def softmax(x):
      n = np.max(x, axis=1, keepdims=True)
      return np.exp(x - n)/np.sum(np.exp(x - n), axis = 1, keepdims = True )
  \<close>
\<close>

definition softmax :: "matrix \<Rightarrow> error + matrix" where
  "softmax x =
     ebind (max_axis1 x) (\<lambda>n.
     ebind (broadcast2 (-) x n) (\<lambda>d.
       let e = map_matrix exp d
       in broadcast2 (/) e (sum_axis1 e)))"

text \<open>
  \<^verbatim>\<open>
  def sigmoid(x):
      n,m = x.shape
      z = np.zeros(shape=(n,m), dtype=float)
      z[x >= 0] = np.exp(-x[x >= 0])
      z[x < 0] = np.exp(x[x < 0])
      denominator = 1 + z
      numerator = np.ones(shape=(n,m), dtype=float)
      numerator[x < 0] = z[x < 0]
      return numerator/denominator
  \<close>
  Entry by entry: \<open>z\<close> starts at 0 and is assigned under the two masks in turn,
  \<open>numerator\<close> starts at 1 and takes \<open>z\<close> under the second mask.
\<close>

definition sigmoid_entry :: "real \<Rightarrow> real" where
  "sigmoid_entry v =
     (let z0 = 0;
          z1 = (if v \<ge> 0 then exp (- v) else z0);
          z = (if v < 0 then exp v else z1);
          denominator = 1 + z;
          numerator = (if v < 0 then z else 1)
      in numerator / denominator)"

definition sigmoid :: "matrix \<Rightarrow> matrix" where
  "sigmoid x = mk (nrows x) (ncols x) (\<lambda>i j. sigmoid_entry (entry x i j))"

section \<open>Parameters and the forward pass\<close>

text \<open>
  The parameter dictionary has the four keys \<^verbatim>\<open>W1\<close>, \<^verbatim>\<open>b1\<close>, \<^verbatim>\<open>W2\<close>, \<^verbatim>\<open>b2\<close>;
  a gradient is a dictionary with the same keys.
\<close>

record params =
  W1 :: matrix
  b1 :: vector
  W2 :: matrix
  b2 :: vector

type_synonym gradient = params

text \<open>
  \<^verbatim>\<open>
  def get_initial_params(input_size, num_hidden, num_output):
      d = {}
      d["W1"] = np.random.normal(0,1,size= (input_size,num_hidden))
      d["W2"] = np.random.normal(0,1,size= (num_hidden,num_output))
      d["b1"] = np.zeros(shape = (num_hidden))
      d["b2"] = np.zeros(shape = (num_output))
      return d
  \<close>
  The global random generator is the sequence \<open>draws\<close> of the samples it is going to
  return; an array is filled row by row. A negative size raises \<^verbatim>\<open>ValueError\<close>.
\<close>

definition get_initial_params :: "(nat \<Rightarrow> real) \<Rightarrow> int \<Rightarrow> int \<Rightarrow> int \<Rightarrow> error + params" where
  "get_initial_params draws input_size num_hidden num_output =
     (if input_size < 0 \<or> num_hidden < 0 \<or> num_output < 0 then Inl ValueError
      else
        let d = nat input_size; h = nat num_hidden; c = nat num_output
        in Inr \<lparr>W1 = mk d h (\<lambda>i j. draws (i * h + j)),
                b1 = replicate h 0,
                W2 = mk h c (\<lambda>i j. draws (d * h + i * c + j)),
                b2 = replicate c 0\<rparr>)"

text \<open>
  \<^verbatim>\<open>
  def forward_prop(data, labels, params):
      W1 = params['W1']; b1 = params['b1']; W2 = params['W2']; b2 = params['b2']
      a1 = sigmoid(data.dot(W1) + b1)
      a2 = softmax(a1.dot(W2) + b2)
      n = len(labels)
      loss = -(1/n) * np.sum(np.sum(labels*np.log(a2),axis = 1),axis = 0)
      return a1, a2, loss
  \<close>
  \<^verbatim>\<open>1/n\<close> divides two Python integers: \<^verbatim>\<open>ZeroDivisionError\<close> when there is no label
  row, raised before the product with the labels is formed.
\<close>

type_synonym forward_fn = "matrix \<Rightarrow> matrix \<Rightarrow> params \<Rightarrow> error + (matrix \<times> matrix \<times> real)"

definition forward_prop :: forward_fn where
  "forward_prop data labels ps =
     ebind (dot data (W1 ps)) (\<lambda>z1.
     ebind (broadcast2 (+) z1 (row_vector (b1 ps))) (\<lambda>h1.
       let a1 = sigmoid h1 in
     ebind (dot a1 (W2 ps)) (\<lambda>z2.
     ebind (broadcast2 (+) z2 (row_vector (b2 ps))) (\<lambda>h2.
     ebind (softmax h2) (\<lambda>a2.
       let n = nrows labels in
       if n = 0 then Inl ZeroDivisionError
       else
     ebind (broadcast2 (*) labels (map_matrix ln a2)) (\<lambda>ll.
       Inr (a1, a2, - (1 / real n) * sum_all ll)))))))"

section \<open>Gradients\<close>

text \<open>
  An array divided by the Python integer \<open>n\<close>. For \<open>n = 0\<close> NumPy fills a non-empty
  array with \<^verbatim>\<open>nan\<close> and \<^verbatim>\<open>inf\<close>.
\<close>

definition div_scalar :: "matrix \<Rightarrow> nat \<Rightarrow> error + matrix" where
  "div_scalar m n =
     (if n = 0 \<and> 0 < nrows m \<and> 0 < ncols m then Inl NonFinite
      else Inr (map_matrix (\<lambda>v. v / real n) m))"

definition scale :: "real \<Rightarrow> matrix \<Rightarrow> matrix" where
  "scale c m = map_matrix (\<lambda>v. c * v) m"

text \<open>
  \<^verbatim>\<open>
  def backward_prop(data, labels, params, forward_prop_func):
      W1 = params['W1']; b1 = params['b1']; W2 = params['W2']; b2 = params['b2']
      a1, a2, _ = forward_prop(data, labels, params)
      n = data.shape[0]
      d1 = a2 - labels
      dW2 = a1.T.dot(d1)/n
      db2 = (np.sum(d1,axis=0,keepdims=True))[0]
      d2 = np.multiply(d1.dot(W2.T),a1*(1-a1))
      dW1 = data.T.dot(d2)/n
      db1 = (np.sum(d2,axis=0,keepdims=True))[0]
      return {"W1":dW1,"b1":db1,"W2":dW2,"b2":db2}
  \<close>
  The body calls the module's \<^verbatim>\<open>forward_prop\<close>; the argument \<^verbatim>\<open>forward_prop_func\<close>
  is not used.
\<close>

definition backward_prop :: "matrix \<Rightarrow> matrix \<Rightarrow> params \<Rightarrow> forward_fn \<Rightarrow> error + gradient" where
  "backward_prop data labels ps forward_prop_func =
     ebind (forward_prop data labels ps) (\<lambda>(a1, a2, loss).
       let n = nrows data in
     ebind (broadcast2 (-) a2 labels) (\<lambda>d1.
     ebind (dot (transposed a1) d1) (\<lambda>p2.
     ebind (div_scalar p2 n) (\<lambda>dW2.
       let db2 = sum_axis0 d1 in
     ebind (dot d1 (transposed (W2 ps))) (\<lambda>q.
     ebind (broadcast2 (*) q (map_matrix (\<lambda>v. v * (1 - v)) a1)) (\<lambda>d2.
     ebind (dot (transposed data) d2) (\<lambda>p1.
     ebind (div_scalar p1 n) (\<lambda>dW1.
       let db1 = sum_axis0 d2 in
       Inr \<lparr>W1 = dW1, b1 = db1, W2 = dW2, b2 = db2\<rparr>))))))))"

text \<open>
  \<^verbatim>\<open>
  def backward_prop_regularized(data, labels, params, forward_prop_func, reg):
      ...                      # the same statements as backward_prop, then
      dW2 += (reg * W2 * 2)
      dW1 += (reg * W1 * 2)
      return {"W1":dW1,"b1":db1,"W2":dW2,"b2":db2}
  \<close>
\<close>

definition backward_prop_regularized ::
    "matrix \<Rightarrow> matrix \<Rightarrow> params \<Rightarrow> forward_fn \<Rightarrow> real \<Rightarrow> error + gradient" where
  "backward_prop_regularized data labels ps forward_prop_func reg =
     ebind (forward_prop data labels ps) (\<lambda>(a1, a2, loss).
       let n = nrows data in
     ebind (broadcast2 (-) a2 labels) (\<lambda>d1.
     ebind (dot (transposed a1) d1) (\<lambda>p2.
     ebind (div_scalar p2 n) (\<lambda>dW2.
       let db2 = sum_axis0 d1 in
     ebind (dot d1 (transposed (W2 ps))) (\<lambda>q.
     ebind (broadcast2 (*) q (map_matrix (\<lambda>v. v * (1 - v)) a1)) (\<lambda>d2.
     ebind (dot (transposed data) d2) (\<lambda>p1.
     ebind (div_scalar p1 n) (\<lambda>dW1.
       let db1 = sum_axis0 d2 in
     ebind (inplace2 (+) dW2 (map_matrix (\<lambda>w. reg * w * 2) (W2 ps))) (\<lambda>dW2'.
     ebind (inplace2 (+) dW1 (map_matrix (\<lambda>w. reg * w * 2) (W1 ps))) (\<lambda>dW1'.
       Inr \<lparr>W1 = dW1', b1 = db1, W2 = dW2', b2 = db2\<rparr>))))))))))"

text \<open>The shapes of the four parameter arrays.\<close>

definition param_shapes :: "params \<Rightarrow> (nat \<times> nat) \<times> nat \<times> (nat \<times> nat) \<times> nat" where
  "param_shapes ps =
     ((nrows (W1 ps), ncols (W1 ps)), length (b1 ps),
      (nrows (W2 ps), ncols (W2 ps)), length (b2 ps))"

text \<open>
  The shape invariant of the data model: \<open>N\<close> rows of \<open>D\<close> features with \<open>N\<close> rows of
  \<open>C\<close> labels, \<open>W1\<close> of shape \<open>D \<times> H\<close>, \<open>b1\<close> of length \<open>H\<close>, \<open>W2\<close> of shape
  \<open>H \<times> C\<close> and \<open>b2\<close> of length \<open>C\<close>.
\<close>

definition shapes_ok :: "matrix \<Rightarrow> matrix \<Rightarrow> params \<Rightarrow> bool" where
  "shapes_ok data labels ps \<longleftrightarrow>
     nrows labels = nrows data \<and> ncols data = nrows (W1 ps) \<and>
     length (b1 ps) = ncols (W1 ps) \<and> nrows (W2 ps) = ncols (W1 ps) \<and>
     length (b2 ps) = ncols (W2 ps) \<and> ncols labels = ncols (W2 ps)"

text \<open>
  The two deltas as the specification writes them: \<open>delta_out\<close> is the output
  distribution minus the labels, \<open>delta_hidden\<close> is \<open>delta_out\<close> times the transpose of
  \<open>W2\<close>, multiplied entry by entry with \<open>a1 (1 - a1)\<close>.
\<close>

definition delta_out :: "matrix \<Rightarrow> matrix \<Rightarrow> nat \<Rightarrow> nat \<Rightarrow> real" where
  "delta_out a2 labels i j = entry a2 i j - entry labels i j"

definition delta_hidden :: "matrix \<Rightarrow> matrix \<Rightarrow> matrix \<Rightarrow> matrix \<Rightarrow> nat \<Rightarrow> nat \<Rightarrow> real" where
  "delta_hidden a1 a2 labels w2 i h =
     (\<Sum>j\<leftarrow>[0..<ncols w2]. delta_out a2 labels i j * entry w2 h j) *
     (entry a1 i h * (1 - entry a1 i h))"

text \<open>
  For comparison only: the plain backward pass as it would read if it called the
  function it is given, that is, with \<^verbatim>\<open>forward_prop_func(data, labels, params)\<close> in
  place of \<^verbatim>\<open>forward_prop(data, labels, params)\<close>. The program does not contain this
  function.
\<close>

definition backward_prop_calling_argument ::
    "matrix \<Rightarrow> matrix \<Rightarrow> params \<Rightarrow> forward_fn \<Rightarrow> error + gradient" where
  "backward_prop_calling_argument data labels ps forward_prop_func =
     ebind (forward_prop_func data labels ps) (\<lambda>(a1, a2, loss).
       let n = nrows data in
     ebind (broadcast2 (-) a2 labels) (\<lambda>d1.
     ebind (dot (transposed a1) d1) (\<lambda>p2.
     ebind (div_scalar p2 n) (\<lambda>dW2.
       let db2 = sum_axis0 d1 in
     ebind (dot d1 (transposed (W2 ps))) (\<lambda>q.
     ebind (broadcast2 (*) q (map_matrix (\<lambda>v. v * (1 - v)) a1)) (\<lambda>d2.
     ebind (dot (transposed data) d2) (\<lambda>p1.
     ebind (div_scalar p1 n) (\<lambda>dW1.
       let db1 = sum_axis0 d2 in
       Inr \<lparr>W1 = dW1, b1 = db1, W2 = dW2, b2 = db2\<rparr>))))))))"

section \<open>The optimizer\<close>

type_synonym backward_fn = "matrix \<Rightarrow> matrix \<Rightarrow> params \<Rightarrow> forward_fn \<Rightarrow> error + gradient"

text \<open>
  \<^verbatim>\<open>int(len(train_labels)/batch_size)\<close>: the true quotient, truncated towards zero;
  \<^verbatim>\<open>ZeroDivisionError\<close> for a zero divisor.
\<close>

definition py_int_truediv :: "nat \<Rightarrow> int \<Rightarrow> error + int" where
  "py_int_truediv a b =
     (if b = 0 then Inl ZeroDivisionError
      else Inr (if 0 < b then int a div b else - (int a div (- b))))"

text \<open>
  A slice \<^verbatim>\<open>m[lo:hi]\<close> of the rows: a negative bound counts from the end, and both
  bounds are clipped to the array.
\<close>

definition slice_bound :: "nat \<Rightarrow> int \<Rightarrow> nat" where
  "slice_bound len i = (if i < 0 then nat (int len + i) else min len (nat i))"

definition slice_rows :: "matrix \<Rightarrow> int \<Rightarrow> int \<Rightarrow> matrix" where
  "slice_rows m lo hi =
     (let l = slice_bound (nrows m) lo; h = slice_bound (nrows m) hi
      in m\<lparr>rows := take (h - l) (drop l (rows m))\<rparr>)"

text \<open>
  The four in-place statements of the loop body (the loop runs only for a positive
  \<open>batch_size\<close>):
  \<^verbatim>\<open>
      params['W1'] -= learning_rate * (grad['W1'])
      params['W2'] -= learning_rate * (grad['W2'])
      params['b1'] -= learning_rate * (grad['b1']/batch_size)
      params['b2'] -= learning_rate * (grad['b2']/batch_size)
  \<close>
\<close>

definition sgd_update :: "real \<Rightarrow> int \<Rightarrow> gradient \<Rightarrow> params \<Rightarrow> error + params" where
  "sgd_update learning_rate batch_size grad ps =
     ebind (inplace2 (-) (W1 ps) (scale learning_rate (W1 grad))) (\<lambda>w1.
     ebind (inplace2 (-) (W2 ps) (scale learning_rate (W2 grad))) (\<lambda>w2.
     ebind (inplace1 (-) (b1 ps)
              (map (\<lambda>g. learning_rate * (g / of_int batch_size)) (b1 grad))) (\<lambda>v1.
     ebind (inplace1 (-) (b2 ps)
              (map (\<lambda>g. learning_rate * (g / of_int batch_size)) (b2 grad))) (\<lambda>v2.
       Inr \<lparr>W1 = w1, b1 = v1, W2 = w2, b2 = v2\<rparr>))))"

text \<open>
  \<^verbatim>\<open>
  def gradient_descent_epoch(train_data, train_labels, learning_rate, batch_size,
                             params, forward_prop_func, backward_prop_func):
      batches = int(len(train_labels)/batch_size)
      for i in range(batches):
        begin = i*batch_size
        end = begin+batch_size
        batch_X = train_data[begin:end]
        batch_y = train_labels[begin:end]
        grad = backward_prop_func(batch_X, batch_y, params, forward_prop_func)
        ...                    # the four in-place statements
      return
  \<close>
  The function changes \<^verbatim>\<open>params\<close> in place and returns nothing: the model returns the
  parameters it leaves. Where the function raises, the model returns the exception
  alone, without the dictionary as the updates before the exception left it. The loop
  is a recursion over the values of \<open>i\<close>.
\<close>

fun epoch_loop ::
    "matrix \<Rightarrow> matrix \<Rightarrow> real \<Rightarrow> int \<Rightarrow> forward_fn \<Rightarrow> backward_fn \<Rightarrow> nat list \<Rightarrow> params
     \<Rightarrow> error + params" where
  "epoch_loop train_data train_labels learning_rate batch_size fwd bwd [] ps = Inr ps"
| "epoch_loop train_data train_labels learning_rate batch_size fwd bwd (i # rest) ps =
     (let lo = int i * batch_size;
          hi = lo + batch_size;
          batch_X = slice_rows train_data lo hi;
          batch_y = slice_rows train_labels lo hi
      in ebind (bwd batch_X batch_y ps fwd) (\<lambda>grad.
         ebind (sgd_update learning_rate batch_size grad ps) (\<lambda>ps'.
           epoch_loop train_data train_labels learning_rate batch_size fwd bwd rest ps')))"

definition gradient_descent_epoch ::
    "matrix \<Rightarrow> matrix \<Rightarrow> real \<Rightarrow> int \<Rightarrow> params \<Rightarrow> forward_fn \<Rightarrow> backward_fn \<Rightarrow> error + params" where
  "gradient_descent_epoch train_data train_labels learning_rate batch_size ps fwd bwd =
     ebind (py_int_truediv (nrows train_labels) batch_size) (\<lambda>batches.
       epoch_loop train_data train_labels learning_rate batch_size fwd bwd
         [0..<nat batches] ps)"

text \<open>
  The batches as the specification describes them. Batch \<open>i\<close> of size \<open>bs\<close> is the
  \<open>bs\<close> rows from row \<open>i * bs\<close> on (fewer where the array ends before);
  \<open>run_batches\<close> is the body of the loop on a given sequence of batches, one gradient
  and one update for each; \<open>drop_remainder\<close> removes the rows that do not fill a last
  batch.
\<close>

definition batch_rows :: "matrix \<Rightarrow> nat \<Rightarrow> nat \<Rightarrow> matrix" where
  "batch_rows m bs i = m\<lparr>rows := take bs (drop (i * bs) (rows m))\<rparr>"

fun run_batches ::
    "real \<Rightarrow> int \<Rightarrow> forward_fn \<Rightarrow> backward_fn \<Rightarrow> (matrix \<times> matrix) list \<Rightarrow> params
     \<Rightarrow> error + params" where
  "run_batches learning_rate batch_size fwd bwd [] ps = Inr ps"
| "run_batches learning_rate batch_size fwd bwd ((batch_X, batch_y) # rest) ps =
     ebind (bwd batch_X batch_y ps fwd) (\<lambda>grad.
     ebind (sgd_update learning_rate batch_size grad ps) (\<lambda>ps'.
       run_batches learning_rate batch_size fwd bwd rest ps'))"

definition drop_remainder :: "nat \<Rightarrow> nat \<Rightarrow> matrix \<Rightarrow> matrix" where
  "drop_remainder n bs m = m\<lparr>rows := take (bs * (n div bs)) (rows m)\<rparr>"

section \<open>Evaluation and the training loop\<close>

text \<open>
  \<^verbatim>\<open>
  def compute_accuracy(output, labels):
      accuracy = (np.argmax(output,axis=1) ==
          np.argmax(labels,axis=1)).sum() * 1. / labels.shape[0]
      return accuracy
  \<close>
  \<^verbatim>\<open>np.argmax\<close> returns the first index of the maximum and raises \<^verbatim>\<open>ValueError\<close> on an
  axis of length 0; the comparison broadcasts its two index arrays.
\<close>

fun first_index :: "real list \<Rightarrow> real \<Rightarrow> nat" where
  "first_index [] v = 0"
| "first_index (x # xs) v = (if x = v then 0 else Suc (first_index xs v))"

definition argmax_axis1 :: "matrix \<Rightarrow> error + nat list" where
  "argmax_axis1 m =
     (if ncols m = 0 then Inl ValueError
      else Inr (map (\<lambda>i. first_index (row_of m i) (Max (set (row_of m i)))) [0..<nrows m]))"

definition count_equal :: "nat list \<Rightarrow> nat list \<Rightarrow> error + nat" where
  "count_equal p q =
     ebind (broadcast_dim (length p) (length q)) (\<lambda>k.
       Inr (length (filter (\<lambda>j. p ! bidx (length p) j = q ! bidx (length q) j) [0..<k])))"

definition compute_accuracy :: "matrix \<Rightarrow> matrix \<Rightarrow> error + real" where
  "compute_accuracy output labels =
     ebind (argmax_axis1 output) (\<lambda>p.
     ebind (argmax_axis1 labels) (\<lambda>q.
     ebind (count_equal p q) (\<lambda>s.
       if nrows labels = 0 then Inl NonFinite
       else Inr (real s * 1 / real (nrows labels)))))"

text \<open>
  \<^verbatim>\<open>
  def nn_train(train_data, train_labels, dev_data, dev_labels,
      get_initial_params_func, forward_prop_func, backward_prop_func,
      num_hidden=300, learning_rate=5, num_epochs=30, batch_size=1000):
      (nexp, dim) = train_data.shape
      params = get_initial_params_func(dim, num_hidden, 10)
      cost_train = []; cost_dev = []; accuracy_train = []; accuracy_dev = []
      for epoch in range(num_epochs):
          gradient_descent_epoch(train_data, train_labels,
              learning_rate, batch_size, params, forward_prop_func, backward_prop_func)
          h, output, cost = forward_prop_func(train_data, train_labels, params)
          cost_train.append(cost)
          accuracy_train.append(compute_accuracy(output,train_labels))
          h, output, cost = forward_prop_func(dev_data, dev_labels, params)
          cost_dev.append(cost)
          accuracy_dev.append(compute_accuracy(output, dev_labels))
      return params, cost_train, cost_dev, accuracy_train, accuracy_dev
  \<close>
  The state of the loop is the parameters and the four lists; \<open>train_loop\<close> runs the
  body \<open>k\<close> times, and \<^verbatim>\<open>range(num_epochs)\<close> is empty for \<open>num_epochs \<le> 0\<close>.
\<close>

type_synonym train_state = "params \<times> real list \<times> real list \<times> real list \<times> real list"

fun train_loop ::
    "matrix \<Rightarrow> matrix \<Rightarrow> matrix \<Rightarrow> matrix \<Rightarrow> forward_fn \<Rightarrow> backward_fn \<Rightarrow> real \<Rightarrow> int
     \<Rightarrow> nat \<Rightarrow> train_state \<Rightarrow> error + train_state" where
  "train_loop train_data train_labels dev_data dev_labels fwd bwd learning_rate batch_size
     0 st = Inr st"
| "train_loop train_data train_labels dev_data dev_labels fwd bwd learning_rate batch_size
     (Suc k) (ps, cost_train, cost_dev, accuracy_train, accuracy_dev) =
     ebind (gradient_descent_epoch train_data train_labels learning_rate batch_size ps fwd bwd)
       (\<lambda>ps'.
     ebind (fwd train_data train_labels ps') (\<lambda>(h, output, cost).
     ebind (compute_accuracy output train_labels) (\<lambda>acc.
     ebind (fwd dev_data dev_labels ps') (\<lambda>(h', output', cost').
     ebind (compute_accuracy output' dev_labels) (\<lambda>acc'.
       train_loop train_data train_labels dev_data dev_labels fwd bwd learning_rate batch_size
         k (ps', cost_train @ [cost], cost_dev @ [cost'],
            accuracy_train @ [acc], accuracy_dev @ [acc']))))))"

definition nn_train ::
    "matrix \<Rightarrow> matrix \<Rightarrow> matrix \<Rightarrow> matrix \<Rightarrow> (int \<Rightarrow> int \<Rightarrow> int \<Rightarrow> error + params)
     \<Rightarrow> forward_fn \<Rightarrow> backward_fn \<Rightarrow> int \<Rightarrow> real \<Rightarrow> int \<Rightarrow> int \<Rightarrow> error + train_state" where
  "nn_train train_data train_labels dev_data dev_labels get_initial_params_func
     forward_prop_func backward_prop_func num_hidden learning_rate num_epochs batch_size =
     (let dim = int (ncols train_data) in
      ebind (get_initial_params_func dim num_hidden 10) (\<lambda>ps.
        train_loop train_data train_labels dev_data dev_labels
          forward_prop_func backward_prop_func learning_rate batch_size
          (nat num_epochs) (ps, [], [], [], [])))"

section \<open>The activation functions on 64-bit floats\<close>

text \<open>
  The two activation functions are written to avoid overflow, and what they return at
  large arguments is decided by rounding. They are therefore embedded a second time, over
  IEEE 754 binary64 values, with every arithmetic step rounded as NumPy rounds it.

  A float is a real number, one of the two infinities, or \<^verbatim>\<open>nan\<close>. The two signed zeros
  are identified: the functions below never divide by a zero, and no comparison
  distinguishes them.
\<close>

datatype f64 = Fin real | PInf | MInf | NaN

text \<open>
  Rounding to nearest, ties to even. The floats around \<open>x\<close> are the integer multiples of
  \<open>2 powi ulp_exp x\<close>: 53 significant bits in the binade of \<open>x\<close>, and the fixed spacing
  \<open>2 powi (- 1074)\<close> among the subnormal numbers. A result of magnitude \<open>2 ^ 1024\<close> or more
  overflows to an infinity.
\<close>

definition round_even :: "real \<Rightarrow> int" where
  "round_even y =
     (let f = \<lfloor>y\<rfloor> in
      if y - of_int f < 1 / 2 then f
      else if 1 / 2 < y - of_int f then f + 1
      else if even f then f else f + 1)"

definition ulp_exp :: "real \<Rightarrow> int" where
  "ulp_exp x = max (- 1074) (\<lfloor>log 2 \<bar>x\<bar>\<rfloor> - 52)"

definition nearest :: "real \<Rightarrow> real" where
  "nearest x =
     sgn x * (of_int (round_even (\<bar>x\<bar> / 2 powi ulp_exp x)) * 2 powi ulp_exp x)"

definition rnd :: "real \<Rightarrow> f64" where
  "rnd x =
     (let r = nearest x in
      if 2 ^ 1024 \<le> r then PInf else if r \<le> - (2 ^ 1024) then MInf else Fin r)"

definition is_f64 :: "real \<Rightarrow> bool" where
  "is_f64 r \<longleftrightarrow>
     (\<exists>m e. r = of_int m * 2 powi e \<and> \<bar>m\<bar> < 2 ^ 53 \<and> - 1074 \<le> e) \<and> \<bar>r\<bar> < 2 ^ 1024"


fun fadd :: "f64 \<Rightarrow> f64 \<Rightarrow> f64" where
  "fadd (Fin a) (Fin b) = rnd (a + b)"
| "fadd NaN b = NaN"
| "fadd a NaN = NaN"
| "fadd PInf MInf = NaN"
| "fadd MInf PInf = NaN"
| "fadd PInf b = PInf"
| "fadd a PInf = PInf"
| "fadd MInf b = MInf"
| "fadd a MInf = MInf"


fun fdiv :: "f64 \<Rightarrow> f64 \<Rightarrow> f64" where
  "fdiv (Fin a) (Fin b) =
     (if b = 0 then (if a = 0 then NaN else if 0 < a then PInf else MInf)
      else rnd (a / b))"
| "fdiv NaN b = NaN"
| "fdiv a NaN = NaN"
| "fdiv (Fin a) b = Fin 0"
| "fdiv PInf (Fin b) = (if 0 \<le> b then PInf else MInf)"
| "fdiv MInf (Fin b) = (if 0 \<le> b then MInf else PInf)"
| "fdiv a b = NaN"



text \<open>
  \<^verbatim>\<open>np.exp\<close> is the exponential of the C library, which is not part of the program. The
  functions take it as a parameter \<open>fexp\<close>, and the theorems assume of it only
  \<open>exp_contract\<close>: at a finite argument that is not positive it returns a float between 0
  and 1, \<open>exp(0)\<close> is 1 and \<open>exp(-inf)\<close> is 0. The correctly rounded exponential \<open>exp_cr\<close>
  is one such function.
\<close>

fun exp_cr :: "f64 \<Rightarrow> f64" where
  "exp_cr (Fin a) = rnd (exp a)"
| "exp_cr PInf = PInf"
| "exp_cr MInf = Fin 0"
| "exp_cr NaN = NaN"





text \<open>
  \<^verbatim>\<open>
  def softmax(x):
      n = np.max(x, axis=1, keepdims=True)
      return np.exp(x - n)/np.sum(np.exp(x - n), axis = 1, keepdims = True )
  \<close>
  \<^verbatim>\<open>np.max\<close> returns \<^verbatim>\<open>nan\<close> for a row that holds one, and raises \<^verbatim>\<open>ValueError\<close> when the
  rows have no entry. That check is on the shape and comes first, so that \<open>fmax_row\<close> is
  only ever applied to a row with an entry.
\<close>

fun f_less :: "f64 \<Rightarrow> f64 \<Rightarrow> bool" where
  "f_less (Fin a) (Fin b) = (a < b)"
| "f_less NaN b = False"
| "f_less a NaN = False"
| "f_less a MInf = False"
| "f_less MInf b = True"
| "f_less PInf b = False"
| "f_less a PInf = True"










section \<open>Basic facts about arrays\<close>

lemma ebind_Inr [simp]: "ebind (Inr x) f = f x"
  by (simp add: ebind_def)

lemma ebind_Inl [simp]: "ebind (Inl e) f = Inl e"
  by (simp add: ebind_def)

lemma ebind_eq_Inr:
  "ebind m f = Inr y \<longleftrightarrow> (\<exists>x. m = Inr x \<and> f x = Inr y)"
  by (cases m) simp_all

lemma nrows_mk [simp]: "nrows (mk r c f) = r"
  by (simp add: nrows_def mk_def)

lemma ncols_mk [simp]: "ncols (mk r c f) = c"
  by (simp add: mk_def)

lemma entry_mk [simp]: "i < r \<Longrightarrow> j < c \<Longrightarrow> entry (mk r c f) i j = f i j"
  by (simp add: entry_def mk_def)

lemma wf_mk [simp]: "wf_matrix (mk r c f)"
  by (simp add: wf_matrix_def mk_def list_all_iff)

lemma mk_cong: "(\<And>i j. i < r \<Longrightarrow> j < c \<Longrightarrow> f i j = g i j) \<Longrightarrow> mk r c f = mk r c g"
  by (simp add: mk_def)

lemma mk_entry: "wf_matrix m \<Longrightarrow> mk (nrows m) (ncols m) (entry m) = m"
proof -
  assume wf: "wf_matrix m"
  have "map (\<lambda>i. map (entry m i) [0..<ncols m]) [0..<length (rows m)] = rows m"
  proof (rule nth_equalityI)
    show "length (map (\<lambda>i. map (entry m i) [0..<ncols m]) [0..<length (rows m)]) = length (rows m)"
      by simp
  next
    fix i assume "i < length (map (\<lambda>i. map (entry m i) [0..<ncols m]) [0..<length (rows m)])"
    then have i: "i < length (rows m)" by simp
    then have "length (rows m ! i) = ncols m"
      using wf by (simp add: wf_matrix_def list_all_length)
    then have "map (entry m i) [0..<ncols m] = rows m ! i"
      by (auto simp: entry_def intro: nth_equalityI)
    with i show "map (\<lambda>i. map (entry m i) [0..<ncols m]) [0..<length (rows m)] ! i = rows m ! i"
      by simp
  qed
  then show ?thesis by (simp add: mk_def nrows_def)
qed

lemma length_row_of [simp]: "length (row_of m i) = ncols m"
  by (simp add: row_of_def)

lemma nth_row_of [simp]: "j < ncols m \<Longrightarrow> row_of m i ! j = entry m i j"
  by (simp add: row_of_def)

lemma row_of_mk [simp]: "i < r \<Longrightarrow> row_of (mk r c f) i = map (f i) [0..<c]"
  by (simp add: row_of_def)

lemma broadcast_dim_same [simp]: "broadcast_dim a a = Inr a"
  by (simp add: broadcast_dim_def)

lemma broadcast_dim_one [simp]: "broadcast_dim a 1 = Inr a"
  by (simp add: broadcast_dim_def)

lemma broadcast_dim_Suc0 [simp]: "broadcast_dim a (Suc 0) = Inr a"
  by (simp add: broadcast_dim_def)

lemma bidx_lt [simp]: "i < d \<Longrightarrow> bidx d i = i"
  by (auto simp: bidx_def)

lemma bidx_one [simp]: "bidx (Suc 0) i = 0"
  by (simp add: bidx_def)

section \<open>The softmax\<close>

lemma softmax_eq:
  "softmax x =
     (if ncols x = 0 then Inl ValueError
      else Inr (mk (nrows x) (ncols x) (\<lambda>i j.
             exp (entry x i j - Max (set (row_of x i))) /
             (\<Sum>k\<leftarrow>[0..<ncols x]. exp (entry x i k - Max (set (row_of x i)))))))"
proof (cases "ncols x = 0")
  case True
  then show ?thesis by (simp add: softmax_def max_axis1_def)
next
  case False
  let ?d = "mk (nrows x) (ncols x) (\<lambda>i j. entry x i j - Max (set (row_of x i)))"
  let ?e = "mk (nrows x) (ncols x) (\<lambda>i j. exp (entry x i j - Max (set (row_of x i))))"
  have d: "broadcast2 (-) x (mk (nrows x) 1 (\<lambda>i j. Max (set (row_of x i)))) = Inr ?d"
    by (auto simp: broadcast2_def intro: mk_cong)
  have e: "map_matrix exp ?d = ?e"
    by (auto simp: map_matrix_def intro: mk_cong)
  have s: "sum_axis1 ?e =
      mk (nrows x) 1 (\<lambda>i j. \<Sum>k\<leftarrow>[0..<ncols x]. exp (entry x i k - Max (set (row_of x i))))"
    by (auto simp: sum_axis1_def intro: mk_cong)
  have q: "broadcast2 (/) ?e
       (mk (nrows x) 1 (\<lambda>i j. \<Sum>k\<leftarrow>[0..<ncols x]. exp (entry x i k - Max (set (row_of x i))))) =
     Inr (mk (nrows x) (ncols x) (\<lambda>i j.
             exp (entry x i j - Max (set (row_of x i))) /
             (\<Sum>k\<leftarrow>[0..<ncols x]. exp (entry x i k - Max (set (row_of x i))))))"
    by (auto simp: broadcast2_def intro: mk_cong)
  from False show ?thesis
    by (simp add: softmax_def max_axis1_def d e s q Let_def del: One_nat_def)
qed

lemma upt_0_2: "[0..<2] = [0, Suc 0]"
  by code_simp

section \<open>Shapes of the intermediate arrays\<close>

lemma dot_Inr:
  assumes "dot a b = Inr m"
  shows "ncols a = nrows b" "nrows m = nrows a" "ncols m = ncols b" "wf_matrix m"
  using assms by (auto simp: dot_def split: if_splits)

lemma broadcast_dim_Inr:
  assumes "broadcast_dim a b = Inr c"
  shows "(a = c \<or> a = 1) \<and> (b = c \<or> b = 1) \<and> (c = a \<or> c = b)"
  using assms by (auto simp: broadcast_dim_def split: if_splits)

lemma broadcast2_Inr:
  assumes "broadcast2 f a b = Inr m"
  shows "broadcast_dim (nrows a) (nrows b) = Inr (nrows m)"
    "broadcast_dim (ncols a) (ncols b) = Inr (ncols m)" "wf_matrix m"
  using assms by (auto simp: broadcast2_def ebind_eq_Inr)

lemma div_scalar_Inr:
  assumes "div_scalar m n = Inr m'"
  shows "nrows m' = nrows m" "ncols m' = ncols m" "wf_matrix m'"
  using assms by (auto simp: div_scalar_def map_matrix_def split: if_splits)

lemma softmax_Inr:
  assumes "softmax x = Inr y"
  shows "nrows y = nrows x" "ncols y = ncols x" "0 < ncols x"
  using assms by (auto simp: softmax_eq split: if_splits)

lemma nrows_sigmoid [simp]: "nrows (sigmoid x) = nrows x"
  by (simp add: sigmoid_def)

lemma ncols_sigmoid [simp]: "ncols (sigmoid x) = ncols x"
  by (simp add: sigmoid_def)

lemma nrows_transposed [simp]: "nrows (transposed x) = ncols x"
  by (simp add: transposed_def)

lemma ncols_transposed [simp]: "ncols (transposed x) = nrows x"
  by (simp add: transposed_def)

lemma nrows_map_matrix [simp]: "nrows (map_matrix f x) = nrows x"
  by (simp add: map_matrix_def)

lemma ncols_map_matrix [simp]: "ncols (map_matrix f x) = ncols x"
  by (simp add: map_matrix_def)

lemma nrows_row_vector [simp]: "nrows (row_vector v) = 1"
  by (simp add: row_vector_def)

lemma ncols_row_vector [simp]: "ncols (row_vector v) = length v"
  by (simp add: row_vector_def)

lemma forward_prop_Inr:
  assumes "forward_prop data labels ps = Inr (a1, a2, loss)"
  shows "ncols data = nrows (W1 ps)" "nrows a1 = nrows data"
    "broadcast_dim (ncols (W1 ps)) (length (b1 ps)) = Inr (ncols a1)"
    "ncols a1 = nrows (W2 ps)" "nrows a2 = nrows data"
    "broadcast_dim (ncols (W2 ps)) (length (b2 ps)) = Inr (ncols a2)"
    "0 < nrows labels"
proof -
  from assms obtain z1 h1 z2 h2 where
    z1: "dot data (W1 ps) = Inr z1" and
    h1: "broadcast2 (+) z1 (row_vector (b1 ps)) = Inr h1" and
    a1: "a1 = sigmoid h1" and
    z2: "dot (sigmoid h1) (W2 ps) = Inr z2" and
    h2: "broadcast2 (+) z2 (row_vector (b2 ps)) = Inr h2" and
    a2: "softmax h2 = Inr a2" and
    n: "0 < nrows labels"
    by (auto simp: forward_prop_def ebind_eq_Inr Let_def split: if_splits)
  note Z1 = dot_Inr [OF z1] and H1 = broadcast2_Inr [OF h1]
    and Z2 = dot_Inr [OF z2] and H2 = broadcast2_Inr [OF h2] and A2 = softmax_Inr [OF a2]
  show "ncols data = nrows (W1 ps)" using Z1 by simp
  show "nrows a1 = nrows data" using H1(1) Z1 by (simp add: a1)
  show "broadcast_dim (ncols (W1 ps)) (length (b1 ps)) = Inr (ncols a1)"
    using H1(2) Z1 by (simp add: a1)
  show "ncols a1 = nrows (W2 ps)" using Z2 by (simp add: a1)
  show "nrows a2 = nrows data" using A2 H2(1) Z2 H1(1) Z1 by simp
  show "broadcast_dim (ncols (W2 ps)) (length (b2 ps)) = Inr (ncols a2)"
    using A2 H2(2) Z2 by simp
  show "0 < nrows labels" by (rule n)
qed

section \<open>The gradient, entry by entry\<close>

lemma backward_prop_Inr:
  assumes "backward_prop data labels ps f = Inr g"
  shows "wf_matrix (W1 g)" "wf_matrix (W2 g)"
    "nrows (W2 g) = nrows (W2 ps)" "ncols (W2 g) = ncols (W2 ps)"
    "nrows (W1 g) = nrows (W1 ps)" "ncols (W1 ps) = ncols (W1 g) \<or> ncols (W1 ps) = 1"
proof -
  from assms obtain a1 a2 loss d1 p2 dW2 q d2 p1 dW1 where
    fw: "forward_prop data labels ps = Inr (a1, a2, loss)" and
    d1: "broadcast2 (-) a2 labels = Inr d1" and
    p2: "dot (transposed a1) d1 = Inr p2" and
    dW2: "div_scalar p2 (nrows data) = Inr dW2" and
    q: "dot d1 (transposed (W2 ps)) = Inr q" and
    d2: "broadcast2 (*) q (map_matrix (\<lambda>v. v * (1 - v)) a1) = Inr d2" and
    p1: "dot (transposed data) d2 = Inr p1" and
    dW1: "div_scalar p1 (nrows data) = Inr dW1" and
    g: "g = \<lparr>W1 = dW1, b1 = sum_axis0 d2, W2 = dW2, b2 = sum_axis0 d1\<rparr>"
    by (auto simp: backward_prop_def ebind_eq_Inr Let_def)
  note F = forward_prop_Inr [OF fw]
  note P2 = dot_Inr [OF p2] and DW2 = div_scalar_Inr [OF dW2] and Q = dot_Inr [OF q]
    and D2 = broadcast2_Inr [OF d2] and P1 = dot_Inr [OF p1] and DW1 = div_scalar_Inr [OF dW1]
  show "wf_matrix (W1 g)" "wf_matrix (W2 g)" using DW1 DW2 by (simp_all add: g)
  show "nrows (W2 g) = nrows (W2 ps)" using DW2 P2 F by (simp add: g)
  show "ncols (W2 g) = ncols (W2 ps)" using DW2 P2 Q by (simp add: g)
  show "nrows (W1 g) = nrows (W1 ps)" using DW1 P1 F by (simp add: g)
  have "ncols d2 = ncols a1" using D2(2) Q F by simp
  then have "ncols (W1 g) = ncols a1" using DW1 P1 by (simp add: g)
  with broadcast_dim_Inr [OF F(3)]
  show "ncols (W1 ps) = ncols (W1 g) \<or> ncols (W1 ps) = 1" by auto
qed

lemma backward_prop_regularized_bind:
  "backward_prop_regularized data labels ps f reg =
     ebind (backward_prop data labels ps f') (\<lambda>g.
     ebind (inplace2 (+) (W2 g) (map_matrix (\<lambda>w. reg * w * 2) (W2 ps))) (\<lambda>dW2'.
     ebind (inplace2 (+) (W1 g) (map_matrix (\<lambda>w. reg * w * 2) (W1 ps))) (\<lambda>dW1'.
       Inr \<lparr>W1 = dW1', b1 = b1 g, W2 = dW2', b2 = b2 g\<rparr>)))"
  by (simp add: backward_prop_def backward_prop_regularized_def ebind_def Let_def
      split: sum.splits prod.splits)

lemma inplace2_add_zero:
  assumes "wf_matrix a" and "nrows b = nrows a" and "ncols b = ncols a \<or> ncols b = 1"
  shows "inplace2 (+) a (map_matrix (\<lambda>w. 0) b) = Inr a"
proof -
  have "mk (nrows a) (ncols a)
          (\<lambda>i j. entry a i j +
             entry (map_matrix (\<lambda>w. 0) b) (bidx (nrows b) i) (bidx (ncols b) j)) =
        mk (nrows a) (ncols a) (entry a)"
  proof (rule mk_cong)
    fix i j assume i: "i < nrows a" and j: "j < ncols a"
    have "bidx (nrows b) i < nrows b" using i assms(2) by simp
    moreover have "bidx (ncols b) j < ncols b"
      using j assms(3) by (auto simp: bidx_def)
    ultimately have
      "entry (map_matrix (\<lambda>w. 0) b) (bidx (nrows b) i) (bidx (ncols b) j) = 0"
      by (simp add: map_matrix_def)
    then show "entry a i j +
        entry (map_matrix (\<lambda>w. 0) b) (bidx (nrows b) i) (bidx (ncols b) j) =
        entry a i j"
      by simp
  qed
  with assms show ?thesis
    by (simp add: inplace2_def mk_entry)
qed

lemma broadcast2_same_shape:
  assumes "nrows a = nrows b" and "ncols a = ncols b"
  shows "broadcast2 f a b = Inr (mk (nrows a) (ncols a) (\<lambda>i j. f (entry a i j) (entry b i j)))"
  using assms by (auto simp: broadcast2_def intro: mk_cong)

lemma broadcast2_row_vector:
  assumes "ncols a = length v"
  shows "broadcast2 f a (row_vector v) =
    Inr (mk (nrows a) (ncols a) (\<lambda>i j. f (entry a i j) (v ! j)))"
proof -
  have "entry a (bidx (nrows a) i) (bidx (length v) j) = entry a i j \<and>
        entry (row_vector v) (bidx (Suc 0) i) (bidx (length v) j) = v ! j"
    if "i < nrows a" "j < length v" for i j
    using that by (simp add: row_vector_def)
  then show ?thesis
    using assms by (auto simp: broadcast2_def intro!: mk_cong)
qed

lemma div_scalar_pos:
  assumes "0 < n"
  shows "div_scalar m n = Inr (mk (nrows m) (ncols m) (\<lambda>i j. entry m i j / real n))"
  using assms by (simp add: div_scalar_def map_matrix_def)

lemma col_of_mk [simp]: "j < c \<Longrightarrow> col_of (mk r c f) j = map (\<lambda>i. f i j) [0..<r]"
  by (simp add: col_of_def)

lemma sum_axis0_mk:
  "sum_axis0 (mk r c f) = map (\<lambda>j. \<Sum>i\<leftarrow>[0..<r]. f i j) [0..<c]"
  by (simp add: sum_axis0_def)

lemma forward_prop_total:
  assumes "shapes_ok data labels ps" and "0 < nrows data" and "0 < ncols (W2 ps)"
  shows "\<exists>a1 a2 loss. forward_prop data labels ps = Inr (a1, a2, loss)"
proof -
  from assms(1) have s: "nrows labels = nrows data" "ncols data = nrows (W1 ps)"
    "length (b1 ps) = ncols (W1 ps)" "nrows (W2 ps) = ncols (W1 ps)"
    "length (b2 ps) = ncols (W2 ps)" "ncols labels = ncols (W2 ps)"
    by (simp_all add: shapes_ok_def)
  obtain z1 where z1: "dot data (W1 ps) = Inr z1" "nrows z1 = nrows data"
      "ncols z1 = ncols (W1 ps)"
    using s by (simp add: dot_def)
  obtain h1 where h1: "broadcast2 (+) z1 (row_vector (b1 ps)) = Inr h1"
      "nrows h1 = nrows data" "ncols h1 = ncols (W1 ps)"
    using s z1 by (simp add: broadcast2_row_vector)
  obtain z2 where z2: "dot (sigmoid h1) (W2 ps) = Inr z2" "nrows z2 = nrows data"
      "ncols z2 = ncols (W2 ps)"
    using s h1 by (simp add: dot_def)
  obtain h2 where h2: "broadcast2 (+) z2 (row_vector (b2 ps)) = Inr h2"
      "nrows h2 = nrows data" "ncols h2 = ncols (W2 ps)"
    using s z2 by (simp add: broadcast2_row_vector)
  obtain a2 where a2: "softmax h2 = Inr a2" "nrows a2 = nrows data"
      "ncols a2 = ncols (W2 ps)"
    using h2 assms(3) by (simp add: softmax_eq)
  obtain ll where ll: "broadcast2 (*) labels (map_matrix ln a2) = Inr ll"
    using s a2 by (simp add: broadcast2_same_shape)
  show ?thesis
    using assms(2) s by (simp add: forward_prop_def z1 h1 z2 h2 a2 ll Let_def)
qed

lemma sum_list_upt_cong:
  fixes f g :: "nat \<Rightarrow> real"
  assumes "\<And>k. k < n \<Longrightarrow> f k = g k"
  shows "(\<Sum>k\<leftarrow>[0..<n]. f k) = (\<Sum>k\<leftarrow>[0..<n]. g k)"
proof -
  have "map f [0..<n] = map g [0..<n]" using assms by simp
  then show ?thesis by (rule arg_cong)
qed

lemma backward_prop_formula:
  assumes ok: "shapes_ok data labels ps" and n: "0 < nrows data"
    and fw: "forward_prop data labels ps = Inr (a1, a2, loss)"
  shows "backward_prop data labels ps f =
    Inr \<lparr>W1 = mk (ncols data) (ncols (W1 ps)) (\<lambda>k h.
                 (\<Sum>i\<leftarrow>[0..<nrows data].
                     entry data i k * delta_hidden a1 a2 labels (W2 ps) i h) /
                 real (nrows data)),
          b1 = map (\<lambda>h. \<Sum>i\<leftarrow>[0..<nrows data]. delta_hidden a1 a2 labels (W2 ps) i h)
                 [0..<ncols (W1 ps)],
          W2 = mk (ncols (W1 ps)) (ncols (W2 ps)) (\<lambda>h j.
                 (\<Sum>i\<leftarrow>[0..<nrows data]. entry a1 i h * delta_out a2 labels i j) /
                 real (nrows data)),
          b2 = map (\<lambda>j. \<Sum>i\<leftarrow>[0..<nrows data]. delta_out a2 labels i j)
                 [0..<ncols (W2 ps)]\<rparr>"
proof -
  let ?N = "nrows data" and ?D = "ncols data" and ?H = "ncols (W1 ps)" and ?C = "ncols (W2 ps)"
  from ok have s: "nrows labels = ?N" "?D = nrows (W1 ps)"
    "length (b1 ps) = ?H" "nrows (W2 ps) = ?H"
    "length (b2 ps) = ?C" "ncols labels = ?C"
    by (simp_all add: shapes_ok_def)
  note F = forward_prop_Inr [OF fw]
  have a1: "nrows a1 = ?N" "ncols a1 = ?H" using F s by simp_all
  have a2: "nrows a2 = ?N" "ncols a2 = ?C" using F s by simp_all
  let ?d1 = "mk ?N ?C (delta_out a2 labels)"
  have d1: "broadcast2 (-) a2 labels = Inr ?d1"
    using a2 s by (simp add: broadcast2_same_shape delta_out_def [abs_def])
  let ?p2 = "mk ?H ?C (\<lambda>h j. \<Sum>i\<leftarrow>[0..<?N]. entry a1 i h * delta_out a2 labels i j)"
  have p2: "dot (transposed a1) ?d1 = Inr ?p2"
    using a1 by (auto simp: dot_def transposed_def intro!: mk_cong sum_list_upt_cong)
  let ?dW2 = "mk ?H ?C (\<lambda>h j.
      (\<Sum>i\<leftarrow>[0..<?N]. entry a1 i h * delta_out a2 labels i j) / real ?N)"
  have dW2: "div_scalar ?p2 ?N = Inr ?dW2"
    using n by (auto simp: div_scalar_pos intro!: mk_cong)
  let ?q = "mk ?N ?H (\<lambda>i h. \<Sum>j\<leftarrow>[0..<?C]. delta_out a2 labels i j * entry (W2 ps) h j)"
  have q: "dot ?d1 (transposed (W2 ps)) = Inr ?q"
    using s by (auto simp: dot_def transposed_def intro!: mk_cong sum_list_upt_cong)
  let ?d2 = "mk ?N ?H (delta_hidden a1 a2 labels (W2 ps))"
  have d2: "broadcast2 (*) ?q (map_matrix (\<lambda>v. v * (1 - v)) a1) = Inr ?d2"
    using a1 by (auto simp: broadcast2_same_shape map_matrix_def delta_hidden_def
        intro!: mk_cong)
  let ?p1 = "mk ?D ?H (\<lambda>k h.
      \<Sum>i\<leftarrow>[0..<?N]. entry data i k * delta_hidden a1 a2 labels (W2 ps) i h)"
  have p1: "dot (transposed data) ?d2 = Inr ?p1"
    by (auto simp: dot_def transposed_def intro!: mk_cong sum_list_upt_cong)
  let ?dW1 = "mk ?D ?H (\<lambda>k h.
      (\<Sum>i\<leftarrow>[0..<?N]. entry data i k * delta_hidden a1 a2 labels (W2 ps) i h) / real ?N)"
  have dW1: "div_scalar ?p1 ?N = Inr ?dW1"
    using n by (auto simp: div_scalar_pos intro!: mk_cong)
  show ?thesis
    by (simp add: backward_prop_def fw d1 p2 dW2 q d2 p1 dW1 sum_axis0_mk Let_def)
qed

section \<open>The regularized gradient without regularization\<close>

text \<open>
  Claim C1. With \<open>reg = 0\<close> the regularized backward pass returns what the plain
  backward pass returns on the same data, labels and parameters: the same exception,
  or a gradient with the same four entries \<open>W1\<close>, \<open>b1\<close>, \<open>W2\<close>, \<open>b2\<close>.
\<close>

theorem backward_prop_regularized_zero:
  "backward_prop_regularized data labels ps f 0 = backward_prop data labels ps f"
proof (cases "backward_prop data labels ps f")
  case (Inl e)
  then show ?thesis
    by (simp add: backward_prop_regularized_bind [where f' = f])
next
  case (Inr g)
  note G = backward_prop_Inr [OF Inr]
  have w2: "inplace2 (+) (W2 g) (map_matrix (\<lambda>w. 0) (W2 ps)) = Inr (W2 g)"
    using G by (intro inplace2_add_zero) simp_all
  have w1: "inplace2 (+) (W1 g) (map_matrix (\<lambda>w. 0) (W1 ps)) = Inr (W1 g)"
    using G by (intro inplace2_add_zero) auto
  show ?thesis
    by (simp add: backward_prop_regularized_bind [where f' = f] Inr w1 w2)
qed

theorem backward_prop_regularized_zero_witness:
  "\<exists>g. backward_prop
          \<lparr>ncols = 2, rows = [[1, 0], [0, 1]]\<rparr> \<lparr>ncols = 2, rows = [[1, 0], [0, 1]]\<rparr>
          \<lparr>W1 = \<lparr>ncols = 1, rows = [[1], [2]]\<rparr>, b1 = [0],
           W2 = \<lparr>ncols = 2, rows = [[3, 4]]\<rparr>, b2 = [0, 0]\<rparr> forward_prop = Inr g \<and>
       backward_prop_regularized
          \<lparr>ncols = 2, rows = [[1, 0], [0, 1]]\<rparr> \<lparr>ncols = 2, rows = [[1, 0], [0, 1]]\<rparr>
          \<lparr>W1 = \<lparr>ncols = 1, rows = [[1], [2]]\<rparr>, b1 = [0],
           W2 = \<lparr>ncols = 2, rows = [[3, 4]]\<rparr>, b2 = [0, 0]\<rparr> forward_prop 0 = Inr g"
proof -
  let ?D = "\<lparr>ncols = 2, rows = [[1, 0], [0, 1]]\<rparr>"
  let ?P = "\<lparr>W1 = \<lparr>ncols = 1, rows = [[1], [2]]\<rparr>, b1 = [0],
           W2 = \<lparr>ncols = 2, rows = [[3, 4]]\<rparr>, b2 = [0, 0]\<rparr>"
  have h: "shapes_ok ?D ?D ?P" "0 < nrows ?D" "0 < ncols (W2 ?P)"
    by (simp_all add: shapes_ok_def nrows_def)
  from forward_prop_total [OF h] obtain a1 a2 loss
    where "forward_prop ?D ?D ?P = Inr (a1, a2, loss)" by blast
  from backward_prop_formula [OF h(1,2) this]
  obtain g where "backward_prop ?D ?D ?P forward_prop = Inr g" by blast
  with backward_prop_regularized_zero [of ?D ?D ?P forward_prop]
  show ?thesis by simp
qed

section \<open>The update step\<close>

lemma inplace2_same_shape:
  assumes "nrows b = nrows a" and "ncols b = ncols a"
  shows "inplace2 f a b = Inr (mk (nrows a) (ncols a) (\<lambda>i j. f (entry a i j) (entry b i j)))"
  using assms by (auto simp: inplace2_def intro!: mk_cong)

lemma inplace1_same_length:
  assumes "length b = length a"
  shows "inplace1 f a b = Inr (map (\<lambda>j. f (a ! j) (b ! j)) [0..<length a])"
  using assms by (simp add: inplace1_def)

lemma sgd_update_formula:
  assumes "nrows (W1 g) = nrows (W1 ps)" and "ncols (W1 g) = ncols (W1 ps)"
    and "nrows (W2 g) = nrows (W2 ps)" and "ncols (W2 g) = ncols (W2 ps)"
    and "length (b1 g) = length (b1 ps)" and "length (b2 g) = length (b2 ps)"
  shows "sgd_update lr bs g ps =
    Inr \<lparr>W1 = mk (nrows (W1 ps)) (ncols (W1 ps))
                 (\<lambda>i j. entry (W1 ps) i j - lr * entry (W1 g) i j),
          b1 = map (\<lambda>j. b1 ps ! j - lr * (b1 g ! j / of_int bs)) [0..<length (b1 ps)],
          W2 = mk (nrows (W2 ps)) (ncols (W2 ps))
                 (\<lambda>i j. entry (W2 ps) i j - lr * entry (W2 g) i j),
          b2 = map (\<lambda>j. b2 ps ! j - lr * (b2 g ! j / of_int bs)) [0..<length (b2 ps)]\<rparr>"
proof -
  have w1: "inplace2 (-) (W1 ps) (scale lr (W1 g)) =
      Inr (mk (nrows (W1 ps)) (ncols (W1 ps)) (\<lambda>i j. entry (W1 ps) i j - lr * entry (W1 g) i j))"
    using assms(1,2) by (auto simp: inplace2_same_shape scale_def map_matrix_def intro!: mk_cong)
  have w2: "inplace2 (-) (W2 ps) (scale lr (W2 g)) =
      Inr (mk (nrows (W2 ps)) (ncols (W2 ps)) (\<lambda>i j. entry (W2 ps) i j - lr * entry (W2 g) i j))"
    using assms(3,4) by (auto simp: inplace2_same_shape scale_def map_matrix_def intro!: mk_cong)
  have v1: "inplace1 (-) (b1 ps) (map (\<lambda>g. lr * (g / of_int bs)) (b1 g)) =
      Inr (map (\<lambda>j. b1 ps ! j - lr * (b1 g ! j / of_int bs)) [0..<length (b1 ps)])"
    using assms(5) by (simp add: inplace1_same_length)
  have v2: "inplace1 (-) (b2 ps) (map (\<lambda>g. lr * (g / of_int bs)) (b2 g)) =
      Inr (map (\<lambda>j. b2 ps ! j - lr * (b2 g ! j / of_int bs)) [0..<length (b2 ps)])"
    using assms(6) by (simp add: inplace1_same_length)
  show ?thesis unfolding sgd_update_def w1 w2 v1 v2 by simp
qed

text \<open>
  Claim C7. On a batch of \<open>n\<close> rows whose shapes fit the parameters, the gradient's bias
  entries are the column sums of the deltas, not divided by \<open>n\<close>, while the weight
  entries are the products divided by \<open>n\<close>; the update subtracts \<open>lr\<close> times the
  weight gradient from each weight and \<open>lr\<close> times the bias gradient divided by
  \<open>batch_size\<close> from each bias. When \<open>batch_size\<close> is the number of rows of the batch,
  the bias step is \<open>lr\<close> times the column sum divided by \<open>n\<close>: the same averaging as
  for the weights.
\<close>

theorem gradient_and_update_scaling:
  assumes ok: "shapes_ok data labels ps" and n: "0 < nrows data" and c: "0 < ncols (W2 ps)"
  shows "\<exists>a1 a2 loss g ps'.
    forward_prop data labels ps = Inr (a1, a2, loss) \<and>
    backward_prop data labels ps f = Inr g \<and>
    sgd_update lr bs g ps = Inr ps' \<and>
    (\<forall>j<ncols (W2 ps).
       b2 g ! j = (\<Sum>i\<leftarrow>[0..<nrows data]. delta_out a2 labels i j) \<and>
       b2 ps' ! j = b2 ps ! j - lr * (b2 g ! j / of_int bs)) \<and>
    (\<forall>h<ncols (W1 ps).
       b1 g ! h = (\<Sum>i\<leftarrow>[0..<nrows data]. delta_hidden a1 a2 labels (W2 ps) i h) \<and>
       b1 ps' ! h = b1 ps ! h - lr * (b1 g ! h / of_int bs)) \<and>
    (\<forall>h<ncols (W1 ps). \<forall>j<ncols (W2 ps).
       entry (W2 g) h j =
         (\<Sum>i\<leftarrow>[0..<nrows data]. entry a1 i h * delta_out a2 labels i j) / real (nrows data) \<and>
       entry (W2 ps') h j = entry (W2 ps) h j - lr * entry (W2 g) h j) \<and>
    (\<forall>k<ncols data. \<forall>h<ncols (W1 ps).
       entry (W1 g) k h =
         (\<Sum>i\<leftarrow>[0..<nrows data]. entry data i k * delta_hidden a1 a2 labels (W2 ps) i h) /
         real (nrows data) \<and>
       entry (W1 ps') k h = entry (W1 ps) k h - lr * entry (W1 g) k h) \<and>
    (bs = int (nrows data) \<longrightarrow>
       (\<forall>j<ncols (W2 ps).
          b2 ps' ! j = b2 ps ! j -
            lr * ((\<Sum>i\<leftarrow>[0..<nrows data]. delta_out a2 labels i j) / real (nrows data))) \<and>
       (\<forall>h<ncols (W1 ps).
          b1 ps' ! h = b1 ps ! h -
            lr * ((\<Sum>i\<leftarrow>[0..<nrows data]. delta_hidden a1 a2 labels (W2 ps) i h) /
                  real (nrows data))))"
proof -
  from forward_prop_total [OF ok n c] obtain a1 a2 loss
    where fw: "forward_prop data labels ps = Inr (a1, a2, loss)" by blast
  from ok have s: "nrows labels = nrows data" "ncols data = nrows (W1 ps)"
    "length (b1 ps) = ncols (W1 ps)" "nrows (W2 ps) = ncols (W1 ps)"
    "length (b2 ps) = ncols (W2 ps)" "ncols labels = ncols (W2 ps)"
    by (simp_all add: shapes_ok_def)
  define g where "g =
    \<lparr>W1 = mk (ncols data) (ncols (W1 ps)) (\<lambda>k h.
                 (\<Sum>i\<leftarrow>[0..<nrows data].
                     entry data i k * delta_hidden a1 a2 labels (W2 ps) i h) /
                 real (nrows data)),
          b1 = map (\<lambda>h. \<Sum>i\<leftarrow>[0..<nrows data]. delta_hidden a1 a2 labels (W2 ps) i h)
                 [0..<ncols (W1 ps)],
          W2 = mk (ncols (W1 ps)) (ncols (W2 ps)) (\<lambda>h j.
                 (\<Sum>i\<leftarrow>[0..<nrows data]. entry a1 i h * delta_out a2 labels i j) /
                 real (nrows data)),
          b2 = map (\<lambda>j. \<Sum>i\<leftarrow>[0..<nrows data]. delta_out a2 labels i j)
                 [0..<ncols (W2 ps)]\<rparr>"
  have bw: "backward_prop data labels ps f = Inr g"
    unfolding g_def by (rule backward_prop_formula [OF ok n fw])
  define ps' where "ps' =
     \<lparr>W1 = mk (nrows (W1 ps)) (ncols (W1 ps))
                 (\<lambda>i j. entry (W1 ps) i j - lr * entry (W1 g) i j),
          b1 = map (\<lambda>j. b1 ps ! j - lr * (b1 g ! j / of_int bs)) [0..<length (b1 ps)],
          W2 = mk (nrows (W2 ps)) (ncols (W2 ps))
                 (\<lambda>i j. entry (W2 ps) i j - lr * entry (W2 g) i j),
          b2 = map (\<lambda>j. b2 ps ! j - lr * (b2 g ! j / of_int bs)) [0..<length (b2 ps)]\<rparr>"
  have up: "sgd_update lr bs g ps = Inr ps'"
    unfolding ps'_def using s by (intro sgd_update_formula) (simp_all add: g_def)
  have gb2: "b2 g ! j = (\<Sum>i\<leftarrow>[0..<nrows data]. delta_out a2 labels i j)"
    if "j < ncols (W2 ps)" for j using that by (simp add: g_def)
  have gb1: "b1 g ! h = (\<Sum>i\<leftarrow>[0..<nrows data]. delta_hidden a1 a2 labels (W2 ps) i h)"
    if "h < ncols (W1 ps)" for h using that by (simp add: g_def)
  have gW2: "entry (W2 g) h j =
      (\<Sum>i\<leftarrow>[0..<nrows data]. entry a1 i h * delta_out a2 labels i j) / real (nrows data)"
    if "h < ncols (W1 ps)" "j < ncols (W2 ps)" for h j using that by (simp add: g_def)
  have gW1: "entry (W1 g) k h =
      (\<Sum>i\<leftarrow>[0..<nrows data]. entry data i k * delta_hidden a1 a2 labels (W2 ps) i h) /
      real (nrows data)"
    if "k < ncols data" "h < ncols (W1 ps)" for k h using that by (simp add: g_def)
  have pb2: "b2 ps' ! j = b2 ps ! j - lr * (b2 g ! j / of_int bs)"
    if "j < ncols (W2 ps)" for j using that s by (simp add: ps'_def)
  have pb1: "b1 ps' ! h = b1 ps ! h - lr * (b1 g ! h / of_int bs)"
    if "h < ncols (W1 ps)" for h using that s by (simp add: ps'_def)
  have pW2: "entry (W2 ps') h j = entry (W2 ps) h j - lr * entry (W2 g) h j"
    if "h < ncols (W1 ps)" "j < ncols (W2 ps)" for h j using that s by (simp add: ps'_def)
  have pW1: "entry (W1 ps') k h = entry (W1 ps) k h - lr * entry (W1 g) k h"
    if "k < ncols data" "h < ncols (W1 ps)" for k h using that s by (simp add: ps'_def)
  have net2: "b2 ps' ! j = b2 ps ! j -
      lr * ((\<Sum>i\<leftarrow>[0..<nrows data]. delta_out a2 labels i j) / real (nrows data))"
    if "bs = int (nrows data)" "j < ncols (W2 ps)" for j
    using that by (simp add: pb2 gb2)
  have net1: "b1 ps' ! h = b1 ps ! h -
      lr * ((\<Sum>i\<leftarrow>[0..<nrows data]. delta_hidden a1 a2 labels (W2 ps) i h) /
            real (nrows data))"
    if "bs = int (nrows data)" "h < ncols (W1 ps)" for h
    using that by (simp add: pb1 gb1)
  show ?thesis
    using fw bw up gb2 gb1 gW2 gW1 pb2 pb1 pW2 pW1 net2 net1 by blast
qed

theorem gradient_and_update_scaling_witness:
  "\<exists>a1 a2 loss g ps'.
     forward_prop
       \<lparr>ncols = 2, rows = [[1, 0], [0, 1]]\<rparr> \<lparr>ncols = 2, rows = [[1, 0], [0, 1]]\<rparr>
       \<lparr>W1 = \<lparr>ncols = 1, rows = [[1], [2]]\<rparr>, b1 = [0],
        W2 = \<lparr>ncols = 2, rows = [[3, 4]]\<rparr>, b2 = [0, 0]\<rparr> = Inr (a1, a2, loss) \<and>
     backward_prop
       \<lparr>ncols = 2, rows = [[1, 0], [0, 1]]\<rparr> \<lparr>ncols = 2, rows = [[1, 0], [0, 1]]\<rparr>
       \<lparr>W1 = \<lparr>ncols = 1, rows = [[1], [2]]\<rparr>, b1 = [0],
        W2 = \<lparr>ncols = 2, rows = [[3, 4]]\<rparr>, b2 = [0, 0]\<rparr> forward_prop = Inr g \<and>
     sgd_update 5 2 g
       \<lparr>W1 = \<lparr>ncols = 1, rows = [[1], [2]]\<rparr>, b1 = [0],
        W2 = \<lparr>ncols = 2, rows = [[3, 4]]\<rparr>, b2 = [0, 0]\<rparr> = Inr ps' \<and>
     b2 g ! 1 =
       delta_out a2 \<lparr>ncols = 2, rows = [[1, 0], [0, 1]]\<rparr> 0 1 +
       delta_out a2 \<lparr>ncols = 2, rows = [[1, 0], [0, 1]]\<rparr> 1 1 \<and>
     b2 ps' ! 1 = - (5 * (b2 g ! 1 / 2)) \<and>
     entry (W2 ps') 0 1 = 4 - 5 * entry (W2 g) 0 1"
proof -
  let ?D = "\<lparr>ncols = 2, rows = [[1, 0], [0, 1]]\<rparr>"
  let ?P = "\<lparr>W1 = \<lparr>ncols = 1, rows = [[1], [2]]\<rparr>, b1 = [0],
           W2 = \<lparr>ncols = 2, rows = [[3, 4]]\<rparr>, b2 = [0, 0]\<rparr>"
  have h: "shapes_ok ?D ?D ?P" "0 < nrows ?D" "0 < ncols (W2 ?P)"
    by (simp_all add: shapes_ok_def nrows_def)
  from gradient_and_update_scaling [OF h, of forward_prop 5 2]
  obtain a1 a2 loss g ps' where
    fw: "forward_prop ?D ?D ?P = Inr (a1, a2, loss)" and
    bw: "backward_prop ?D ?D ?P forward_prop = Inr g" and
    up: "sgd_update 5 2 g ?P = Inr ps'" and
    b: "\<forall>j<ncols (W2 ?P).
       b2 g ! j = (\<Sum>i\<leftarrow>[0..<nrows ?D]. delta_out a2 ?D i j) \<and>
       b2 ps' ! j = b2 ?P ! j - 5 * (b2 g ! j / of_int 2)" and
    w: "\<forall>h<ncols (W1 ?P). \<forall>j<ncols (W2 ?P).
       entry (W2 g) h j =
         (\<Sum>i\<leftarrow>[0..<nrows ?D]. entry a1 i h * delta_out a2 ?D i j) / real (nrows ?D) \<and>
       entry (W2 ps') h j = entry (W2 ?P) h j - 5 * entry (W2 g) h j"
    by blast
  have j: "(1::nat) < ncols (W2 ?P)" and k: "(0::nat) < ncols (W1 ?P)" by simp_all
  from b j have b1: "b2 g ! 1 = (\<Sum>i\<leftarrow>[0..<nrows ?D]. delta_out a2 ?D i 1)"
    and b2: "b2 ps' ! 1 = b2 ?P ! 1 - 5 * (b2 g ! 1 / of_int 2)" by blast+
  from w j k have w2: "entry (W2 ps') 0 1 = entry (W2 ?P) 0 1 - 5 * entry (W2 g) 0 1"
    by blast
  from b1 have "b2 g ! 1 = delta_out a2 ?D 0 1 + delta_out a2 ?D 1 1"
    by (simp add: nrows_def upt_0_2)
  moreover from b2 have "b2 ps' ! 1 = - (5 * (b2 g ! 1 / 2))" by simp
  moreover from w2 have "entry (W2 ps') 0 1 = 4 - 5 * entry (W2 g) 0 1"
    by (simp add: entry_def)
  ultimately show ?thesis using fw bw up by blast
qed

section \<open>The forward function argument\<close>

lemma backward_prop_any_forward:
  "backward_prop data labels ps f = backward_prop data labels ps f'"
  by (simp add: backward_prop_def)

lemma backward_prop_regularized_any_forward:
  "backward_prop_regularized data labels ps f reg =
   backward_prop_regularized data labels ps f' reg"
  by (simp add: backward_prop_regularized_def)

text \<open>
  Claim C10, as amended. Neither backward pass calls its \<open>forward_prop_func\<close>
  argument: for every function \<open>f\<close> passed in that place, the regularized pass and the
  plain pass both return what they return when the module's \<open>forward_prop\<close> is passed.
\<close>

theorem backward_passes_ignore_forward_argument:
  "backward_prop_regularized data labels ps f reg =
     backward_prop_regularized data labels ps forward_prop reg \<and>
   backward_prop data labels ps f = backward_prop data labels ps forward_prop"
  using backward_prop_regularized_any_forward [of data labels ps f reg forward_prop]
    backward_prop_any_forward [of data labels ps f forward_prop]
  by simp

theorem backward_passes_ignore_forward_argument_witness:
  "(\<exists>g. backward_prop_regularized
          \<lparr>ncols = 2, rows = [[1, 0], [0, 1]]\<rparr> \<lparr>ncols = 2, rows = [[1, 0], [0, 1]]\<rparr>
          \<lparr>W1 = \<lparr>ncols = 1, rows = [[1], [2]]\<rparr>, b1 = [0],
           W2 = \<lparr>ncols = 2, rows = [[3, 4]]\<rparr>, b2 = [0, 0]\<rparr>
          (\<lambda>d l p. Inl ValueError) 0 = Inr g) \<and>
   (\<exists>g. backward_prop
          \<lparr>ncols = 2, rows = [[1, 0], [0, 1]]\<rparr> \<lparr>ncols = 2, rows = [[1, 0], [0, 1]]\<rparr>
          \<lparr>W1 = \<lparr>ncols = 1, rows = [[1], [2]]\<rparr>, b1 = [0],
           W2 = \<lparr>ncols = 2, rows = [[3, 4]]\<rparr>, b2 = [0, 0]\<rparr>
          (\<lambda>d l p. Inl ValueError) = Inr g)"
proof -
  let ?D = "\<lparr>ncols = 2, rows = [[1, 0], [0, 1]]\<rparr>"
  let ?P = "\<lparr>W1 = \<lparr>ncols = 1, rows = [[1], [2]]\<rparr>, b1 = [0],
           W2 = \<lparr>ncols = 2, rows = [[3, 4]]\<rparr>, b2 = [0, 0]\<rparr>"
  have h: "shapes_ok ?D ?D ?P" "0 < nrows ?D" "0 < ncols (W2 ?P)"
    by (simp_all add: shapes_ok_def nrows_def)
  from forward_prop_total [OF h] obtain a1 a2 loss
    where "forward_prop ?D ?D ?P = Inr (a1, a2, loss)" by blast
  from backward_prop_formula [OF h(1,2) this]
  obtain g where g: "backward_prop ?D ?D ?P forward_prop = Inr g" by blast
  have "backward_prop_regularized ?D ?D ?P forward_prop 0 = Inr g"
    using g backward_prop_Inr [OF g] inplace2_add_zero [of "W2 g" "W2 ?P"]
      inplace2_add_zero [of "W1 g" "W1 ?P"]
    by (simp add: backward_prop_regularized_bind [where f' = forward_prop])
  with g backward_passes_ignore_forward_argument [of ?D ?D ?P "\<lambda>d l p. Inl ValueError" 0]
  show ?thesis by simp
qed

text \<open>
  The claim as stated contrasts the two passes: the plain one is said to call the
  function supplied. It does not: given a function that always raises, the plain pass
  still returns a gradient, where a pass that called its argument raises.
\<close>

theorem plain_backward_calls_argument_counterexample:
  "(\<exists>g. backward_prop
          \<lparr>ncols = 2, rows = [[1, 0], [0, 1]]\<rparr> \<lparr>ncols = 2, rows = [[1, 0], [0, 1]]\<rparr>
          \<lparr>W1 = \<lparr>ncols = 1, rows = [[1], [2]]\<rparr>, b1 = [0],
           W2 = \<lparr>ncols = 2, rows = [[3, 4]]\<rparr>, b2 = [0, 0]\<rparr>
          (\<lambda>d l p. Inl ValueError) = Inr g) \<and>
   backward_prop_calling_argument
          \<lparr>ncols = 2, rows = [[1, 0], [0, 1]]\<rparr> \<lparr>ncols = 2, rows = [[1, 0], [0, 1]]\<rparr>
          \<lparr>W1 = \<lparr>ncols = 1, rows = [[1], [2]]\<rparr>, b1 = [0],
           W2 = \<lparr>ncols = 2, rows = [[3, 4]]\<rparr>, b2 = [0, 0]\<rparr>
          (\<lambda>d l p. Inl ValueError) = Inl ValueError"
proof -
  let ?D = "\<lparr>ncols = 2, rows = [[1, 0], [0, 1]]\<rparr>"
  let ?P = "\<lparr>W1 = \<lparr>ncols = 1, rows = [[1], [2]]\<rparr>, b1 = [0],
           W2 = \<lparr>ncols = 2, rows = [[3, 4]]\<rparr>, b2 = [0, 0]\<rparr>"
  have h: "shapes_ok ?D ?D ?P" "0 < nrows ?D" "0 < ncols (W2 ?P)"
    by (simp_all add: shapes_ok_def nrows_def)
  from forward_prop_total [OF h] obtain a1 a2 loss
    where "forward_prop ?D ?D ?P = Inr (a1, a2, loss)" by blast
  from backward_prop_formula [OF h(1,2) this]
  obtain g where "backward_prop ?D ?D ?P (\<lambda>d l p. Inl ValueError) = Inr g" by blast
  moreover have "backward_prop_calling_argument ?D ?D ?P (\<lambda>d l p. Inl ValueError) =
      Inl ValueError"
    by (simp add: backward_prop_calling_argument_def)
  ultimately show ?thesis by blast
qed

section \<open>The batches of an epoch\<close>

lemma slice_rows_batch:
  assumes "0 < bs"
  shows "slice_rows m (int i * int bs) (int i * int bs + int bs) = batch_rows m bs i"
proof -
  let ?n = "nrows m"
  have "int i * int bs = int (i * bs)" by simp
  then have lo: "slice_bound ?n (int i * int bs) = min ?n (i * bs)"
    unfolding slice_bound_def by (simp del: of_nat_add of_nat_mult)
  have "int i * int bs + int bs = int (i * bs + bs)" by simp
  then have hi: "slice_bound ?n (int i * int bs + int bs) = min ?n (i * bs + bs)"
    unfolding slice_bound_def by (simp del: of_nat_add of_nat_mult)
  have "take (min ?n (i * bs + bs) - min ?n (i * bs)) (drop (min ?n (i * bs)) (rows m)) =
        take bs (drop (i * bs) (rows m))"
  proof (cases "i * bs \<le> ?n")
    case True
    then have "min ?n (i * bs + bs) - min ?n (i * bs) = min (?n - i * bs) bs"
      by (auto simp: min_def)
    moreover have "length (drop (i * bs) (rows m)) = ?n - i * bs"
      by (simp add: nrows_def)
    ultimately show ?thesis
      using True by (simp add: min_def)
  next
    case False
    then show ?thesis by (simp add: nrows_def min_def)
  qed
  then show ?thesis
    by (simp add: slice_rows_def batch_rows_def Let_def lo hi)
qed

lemma epoch_loop_run_batches:
  assumes "0 < bs"
  shows "epoch_loop train_data train_labels lr (int bs) fwd bwd idxs ps =
    run_batches lr (int bs) fwd bwd
      (map (\<lambda>i. (batch_rows train_data bs i, batch_rows train_labels bs i)) idxs) ps"
proof (induction idxs arbitrary: ps)
  case Nil
  show ?case by simp
next
  case (Cons i idxs)
  have "epoch_loop train_data train_labels lr (int bs) fwd bwd idxs =
    run_batches lr (int bs) fwd bwd
      (map (\<lambda>i. (batch_rows train_data bs i, batch_rows train_labels bs i)) idxs)"
    by (rule ext) (rule Cons.IH)
  then show ?case
    by (simp add: Let_def slice_rows_batch [OF assms])
qed

lemma py_int_truediv_pos:
  assumes "0 < bs"
  shows "py_int_truediv n (int bs) = Inr (int (n div bs))"
  using assms by (simp add: py_int_truediv_def zdiv_int)

lemma gradient_descent_epoch_batches:
  assumes "0 < bs"
  shows "gradient_descent_epoch train_data train_labels lr (int bs) ps fwd bwd =
    run_batches lr (int bs) fwd bwd
      (map (\<lambda>i. (batch_rows train_data bs i, batch_rows train_labels bs i))
         [0..<nrows train_labels div bs]) ps"
  using assms
  by (simp add: gradient_descent_epoch_def py_int_truediv_pos epoch_loop_run_batches)

lemma nrows_batch_rows:
  assumes "Suc i * bs \<le> nrows m"
  shows "nrows (batch_rows m bs i) = bs"
  using assms by (simp add: batch_rows_def nrows_def)

lemma concat_batches:
  "concat (map (\<lambda>i. take bs (drop (i * bs) xs)) [0..<k]) = take (bs * k) xs"
proof (induction k)
  case 0
  show ?case by simp
next
  case (Suc k)
  have "bs * Suc k = bs * k + bs" by simp
  then have "take (bs * Suc k) xs = take (bs * k) xs @ take bs (drop (bs * k) xs)"
    by (simp only: take_add)
  with Suc show ?case by (simp add: mult.commute)
qed
lemma ebind_Inr_right [simp]: "ebind m Inr = m"
  by (cases m) simp_all

lemma run_batches_Nil: "run_batches lr bs fwd bwd [] = Inr"
  by (rule ext) simp

lemma batch_rows_all:
  "batch_rows m (nrows m) 0 = m"
  by (simp add: batch_rows_def nrows_def)

text \<open>
  Claim C6. For a positive \<open>batch_size\<close> and \<open>N\<close> label rows, one epoch is the loop
  body run on \<open>N div batch_size\<close> batches, batch \<open>i\<close> being rows \<open>i * batch_size\<close> to
  \<open>(i + 1) * batch_size - 1\<close> of the data and of the labels: each has exactly
  \<open>batch_size\<close> rows, and the batches in order make up the first
  \<open>batch_size * (N div batch_size)\<close> rows, so that a trailing partial batch is
  dropped. With \<open>batch_size = N\<close> there is exactly one gradient and one update, on the
  whole set; with \<open>batch_size > N\<close> there is none and the parameters are returned
  as they are.
\<close>

theorem epoch_batches:
  assumes "0 < bs"
  shows
    "gradient_descent_epoch train_data train_labels lr (int bs) ps fwd bwd =
       run_batches lr (int bs) fwd bwd
         (map (\<lambda>i. (batch_rows train_data bs i, batch_rows train_labels bs i))
            [0..<nrows train_labels div bs]) ps \<and>
     length (map (\<lambda>i. (batch_rows train_data bs i, batch_rows train_labels bs i))
            [0..<nrows train_labels div bs]) = nrows train_labels div bs \<and>
     (\<forall>i<nrows train_labels div bs.
        nrows (batch_rows train_labels bs i) = bs \<and>
        (nrows train_data = nrows train_labels \<longrightarrow> nrows (batch_rows train_data bs i) = bs)) \<and>
     concat (map (\<lambda>i. rows (batch_rows train_labels bs i)) [0..<nrows train_labels div bs]) =
       take (bs * (nrows train_labels div bs)) (rows train_labels) \<and>
     concat (map (\<lambda>i. rows (batch_rows train_data bs i)) [0..<nrows train_labels div bs]) =
       take (bs * (nrows train_labels div bs)) (rows train_data) \<and>
     (bs = nrows train_labels \<longrightarrow>
        gradient_descent_epoch train_data train_labels lr (int bs) ps fwd bwd =
          ebind (bwd (batch_rows train_data bs 0) train_labels ps fwd)
            (\<lambda>grad. sgd_update lr (int bs) grad ps)) \<and>
     (nrows train_labels < bs \<longrightarrow>
        gradient_descent_epoch train_data train_labels lr (int bs) ps fwd bwd = Inr ps)"
proof (intro conjI allI impI)
  let ?k = "nrows train_labels div bs"
  show "gradient_descent_epoch train_data train_labels lr (int bs) ps fwd bwd =
       run_batches lr (int bs) fwd bwd
         (map (\<lambda>i. (batch_rows train_data bs i, batch_rows train_labels bs i)) [0..<?k]) ps"
    by (rule gradient_descent_epoch_batches [OF assms])
  show "length (map (\<lambda>i. (batch_rows train_data bs i, batch_rows train_labels bs i))
            [0..<?k]) = ?k"
    by simp
  have full: "Suc i * bs \<le> nrows train_labels" if "i < ?k" for i
  proof -
    from that have "Suc i \<le> ?k" by simp
    then have "Suc i * bs \<le> ?k * bs" by (rule mult_le_mono1)
    also have "\<dots> \<le> nrows train_labels" by simp
    finally show ?thesis .
  qed
  show "nrows (batch_rows train_labels bs i) = bs" if "i < ?k" for i
    using full [OF that] by (rule nrows_batch_rows)
  show "nrows (batch_rows train_data bs i) = bs"
    if "i < ?k" "nrows train_data = nrows train_labels" for i
    using full [OF that(1)] that(2) by (intro nrows_batch_rows) simp
  show "concat (map (\<lambda>i. rows (batch_rows train_labels bs i)) [0..<?k]) =
       take (bs * ?k) (rows train_labels)"
    by (simp add: batch_rows_def concat_batches)
  show "concat (map (\<lambda>i. rows (batch_rows train_data bs i)) [0..<?k]) =
       take (bs * ?k) (rows train_data)"
    by (simp add: batch_rows_def concat_batches)
  show "gradient_descent_epoch train_data train_labels lr (int bs) ps fwd bwd =
          ebind (bwd (batch_rows train_data bs 0) train_labels ps fwd)
            (\<lambda>grad. sgd_update lr (int bs) grad ps)"
    if "bs = nrows train_labels"
    using assms that batch_rows_all [of train_labels]
    by (simp add: gradient_descent_epoch_batches run_batches_Nil)
  show "gradient_descent_epoch train_data train_labels lr (int bs) ps fwd bwd = Inr ps"
    if "nrows train_labels < bs"
    using assms that by (simp add: gradient_descent_epoch_batches)
qed

theorem epoch_batches_witness:
  "gradient_descent_epoch
     \<lparr>ncols = 1, rows = [[1], [2], [3]]\<rparr> \<lparr>ncols = 1, rows = [[1], [1], [1]]\<rparr> 5 2
     \<lparr>W1 = \<lparr>ncols = 1, rows = [[0]]\<rparr>, b1 = [0], W2 = \<lparr>ncols = 1, rows = [[0]]\<rparr>, b2 = [0]\<rparr>
     forward_prop backward_prop =
   run_batches 5 2 forward_prop backward_prop
     [(\<lparr>ncols = 1, rows = [[1], [2]]\<rparr>, \<lparr>ncols = 1, rows = [[1], [1]]\<rparr>)]
     \<lparr>W1 = \<lparr>ncols = 1, rows = [[0]]\<rparr>, b1 = [0], W2 = \<lparr>ncols = 1, rows = [[0]]\<rparr>, b2 = [0]\<rparr> \<and>
   gradient_descent_epoch
     \<lparr>ncols = 1, rows = [[1], [2], [3]]\<rparr> \<lparr>ncols = 1, rows = [[1], [1], [1]]\<rparr> 5 4
     \<lparr>W1 = \<lparr>ncols = 1, rows = [[0]]\<rparr>, b1 = [0], W2 = \<lparr>ncols = 1, rows = [[0]]\<rparr>, b2 = [0]\<rparr>
     forward_prop backward_prop =
   Inr \<lparr>W1 = \<lparr>ncols = 1, rows = [[0]]\<rparr>, b1 = [0], W2 = \<lparr>ncols = 1, rows = [[0]]\<rparr>, b2 = [0]\<rparr>"
proof -
  let ?D = "\<lparr>ncols = 1, rows = [[1], [2], [3]]\<rparr>"
  let ?L = "\<lparr>ncols = 1, rows = [[1], [1], [1]]\<rparr>"
  let ?P = "\<lparr>W1 = \<lparr>ncols = 1, rows = [[0]]\<rparr>, b1 = [0], W2 = \<lparr>ncols = 1, rows = [[0]]\<rparr>, b2 = [0]\<rparr>"
  have n: "nrows ?L = 3" by (simp add: nrows_def)
  have d: "(3::nat) div 2 = 1" by simp
  have two: "(0::nat) < 2" and four: "(0::nat) < 4" by simp_all
  from epoch_batches [OF two, of ?D ?L 5 ?P forward_prop backward_prop]
  have "gradient_descent_epoch ?D ?L 5 (int 2) ?P forward_prop backward_prop =
       run_batches 5 (int 2) forward_prop backward_prop
         (map (\<lambda>i. (batch_rows ?D 2 i, batch_rows ?L 2 i)) [0..<nrows ?L div 2]) ?P"
    by blast
  then have a: "gradient_descent_epoch ?D ?L 5 2 ?P forward_prop backward_prop =
     run_batches 5 2 forward_prop backward_prop
       [(\<lparr>ncols = 1, rows = [[1], [2]]\<rparr>, \<lparr>ncols = 1, rows = [[1], [1]]\<rparr>)] ?P"
    unfolding n d by (simp add: batch_rows_def)
  from epoch_batches [OF four, of ?D ?L 5 ?P forward_prop backward_prop]
  have "nrows ?L < 4 \<longrightarrow>
      gradient_descent_epoch ?D ?L 5 (int 4) ?P forward_prop backward_prop = Inr ?P"
    by blast
  then have b: "gradient_descent_epoch ?D ?L 5 4 ?P forward_prop backward_prop = Inr ?P"
    unfolding n by simp
  from a b show ?thesis by blast
qed

section \<open>An epoch with learning rate zero\<close>

lemma nrows_scale [simp]: "nrows (scale c m) = nrows m"
  by (simp add: scale_def)

lemma ncols_scale [simp]: "ncols (scale c m) = ncols m"
  by (simp add: scale_def)

lemma entry_scale [simp]:
  "i < nrows m \<Longrightarrow> j < ncols m \<Longrightarrow> entry (scale c m) i j = c * entry m i j"
  by (simp add: scale_def map_matrix_def)

lemma inplace2_sub_zero:
  assumes "wf_matrix a" and "inplace2 (-) a (scale 0 b) = Inr a'"
  shows "a' = a"
proof -
  let ?z = "scale 0 b"
  from assms(2) have sh: "nrows ?z = nrows a \<or> nrows ?z = 1" "ncols ?z = ncols a \<or> ncols ?z = 1"
    and a': "a' = mk (nrows a) (ncols a)
      (\<lambda>i j. entry a i j - entry ?z (bidx (nrows ?z) i) (bidx (ncols ?z) j))"
    unfolding inplace2_def by (simp_all split: if_splits)
  have "mk (nrows a) (ncols a)
      (\<lambda>i j. entry a i j - entry ?z (bidx (nrows ?z) i) (bidx (ncols ?z) j)) =
      mk (nrows a) (ncols a) (entry a)"
  proof (rule mk_cong)
    fix i j assume i: "i < nrows a" and j: "j < ncols a"
    have "bidx (nrows ?z) i < nrows b" using i sh(1) by (auto simp: bidx_def)
    moreover have "bidx (ncols ?z) j < ncols b" using j sh(2) by (auto simp: bidx_def)
    ultimately have "entry ?z (bidx (nrows ?z) i) (bidx (ncols ?z) j) = 0"
      by simp
    then show "entry a i j - entry ?z (bidx (nrows ?z) i) (bidx (ncols ?z) j) = entry a i j"
      by simp
  qed
  with a' assms(1) show ?thesis by (simp add: mk_entry)
qed

lemma inplace1_sub_zero:
  assumes "inplace1 (-) a (map (\<lambda>g. 0 * (g / c)) b) = Inr a'"
  shows "a' = a"
proof -
  from assms have a': "a' = map (\<lambda>j. a ! j) [0..<length a]"
    by (auto simp: inplace1_def bidx_def split: if_splits)
  then show ?thesis by (simp add: map_nth)
qed

lemma sgd_update_zero:
  assumes "wf_matrix (W1 ps)" and "wf_matrix (W2 ps)"
    and "sgd_update 0 bs g ps = Inr ps'"
  shows "ps' = ps"
proof -
  from assms(3) obtain w1 w2 v1 v2 where
    w1: "inplace2 (-) (W1 ps) (scale 0 (W1 g)) = Inr w1" and
    w2: "inplace2 (-) (W2 ps) (scale 0 (W2 g)) = Inr w2" and
    v1: "inplace1 (-) (b1 ps) (map (\<lambda>g. 0 * (g / of_int bs)) (b1 g)) = Inr v1" and
    v2: "inplace1 (-) (b2 ps) (map (\<lambda>g. 0 * (g / of_int bs)) (b2 g)) = Inr v2" and
    ps': "ps' = \<lparr>W1 = w1, b1 = v1, W2 = w2, b2 = v2\<rparr>"
    unfolding sgd_update_def ebind_eq_Inr by blast
  have "w1 = W1 ps" using assms(1) w1 by (rule inplace2_sub_zero)
  moreover have "w2 = W2 ps" using assms(2) w2 by (rule inplace2_sub_zero)
  moreover have "v1 = b1 ps" using v1 by (rule inplace1_sub_zero)
  moreover have "v2 = b2 ps" using v2 by (rule inplace1_sub_zero)
  ultimately show ?thesis by (simp add: ps')
qed

lemma epoch_loop_zero:
  assumes "wf_matrix (W1 ps)" and "wf_matrix (W2 ps)"
    and "epoch_loop train_data train_labels 0 bs fwd bwd idxs ps = Inr ps'"
  shows "ps' = ps"
  using assms(3)
proof (induction idxs)
  case Nil
  then show ?case by simp
next
  case (Cons i idxs)
  from Cons.prems obtain g p where
    up: "sgd_update 0 bs g ps = Inr p" and
    rest: "epoch_loop train_data train_labels 0 bs fwd bwd idxs p = Inr ps'"
    by (auto simp: Let_def ebind_eq_Inr)
  have "p = ps" using assms(1,2) up by (rule sgd_update_zero)
  with rest Cons.IH show ?case by simp
qed

text \<open>
  Claim C2. One epoch with \<open>learning_rate = 0\<close>, for any training set, batch size and
  gradient function, returns the parameters it was given: every entry of \<open>W1\<close>, \<open>b1\<close>,
  \<open>W2\<close>, \<open>b2\<close> is unchanged. (The epoch may also end in an exception, of the gradient
  function or of a shape that does not fit.)
\<close>

theorem epoch_learning_rate_zero:
  assumes "wf_matrix (W1 ps)" and "wf_matrix (W2 ps)"
    and "gradient_descent_epoch train_data train_labels 0 batch_size ps fwd bwd = Inr ps'"
  shows "ps' = ps"
proof -
  from assms(3) obtain k where
    "epoch_loop train_data train_labels 0 batch_size fwd bwd [0..<nat k] ps = Inr ps'"
    by (auto simp: gradient_descent_epoch_def ebind_eq_Inr)
  with assms(1,2) show ?thesis by (rule epoch_loop_zero)
qed
section \<open>An epoch on data that fits the parameters returns\<close>

lemma inplace2_Inr:
  assumes "inplace2 f a b = Inr a'"
  shows "nrows a' = nrows a" "ncols a' = ncols a" "wf_matrix a'"
  using assms by (auto simp: inplace2_def split: if_splits)

lemma inplace1_Inr:
  assumes "inplace1 f a b = Inr a'"
  shows "length a' = length a"
  using assms by (auto simp: inplace1_def split: if_splits)

lemma sgd_update_Inr:
  assumes "sgd_update lr bs g ps = Inr ps'"
  shows "param_shapes ps' = param_shapes ps" "wf_matrix (W1 ps')" "wf_matrix (W2 ps')"
proof -
  from assms obtain w1 w2 v1 v2 where
    w1: "inplace2 (-) (W1 ps) (scale lr (W1 g)) = Inr w1" and
    w2: "inplace2 (-) (W2 ps) (scale lr (W2 g)) = Inr w2" and
    v1: "inplace1 (-) (b1 ps) (map (\<lambda>g. lr * (g / of_int bs)) (b1 g)) = Inr v1" and
    v2: "inplace1 (-) (b2 ps) (map (\<lambda>g. lr * (g / of_int bs)) (b2 g)) = Inr v2" and
    ps': "ps' = \<lparr>W1 = w1, b1 = v1, W2 = w2, b2 = v2\<rparr>"
    unfolding sgd_update_def ebind_eq_Inr by blast
  note I = inplace2_Inr [OF w1] inplace2_Inr [OF w2] inplace1_Inr [OF v1] inplace1_Inr [OF v2]
  show "param_shapes ps' = param_shapes ps" using I by (simp add: param_shapes_def ps')
  show "wf_matrix (W1 ps')" "wf_matrix (W2 ps')" using I by (simp_all add: ps')
qed

lemma shapes_ok_param_shapes:
  assumes "param_shapes ps' = param_shapes ps"
  shows "shapes_ok x y ps' = shapes_ok x y ps"
  using assms by (simp add: param_shapes_def shapes_ok_def)

lemma step_total:
  assumes ok: "shapes_ok x y ps" and n: "0 < nrows x" and c: "0 < ncols (W2 ps)"
  shows "\<exists>g ps'. backward_prop x y ps f = Inr g \<and> sgd_update lr bs g ps = Inr ps'"
proof -
  from forward_prop_total [OF ok n c] obtain a1 a2 loss
    where fw: "forward_prop x y ps = Inr (a1, a2, loss)" by blast
  from backward_prop_formula [OF ok n fw, of f] obtain g where
    g: "backward_prop x y ps f = Inr g" and
    sh: "nrows (W1 g) = ncols x" "ncols (W1 g) = ncols (W1 ps)"
      "nrows (W2 g) = ncols (W1 ps)" "ncols (W2 g) = ncols (W2 ps)"
      "length (b1 g) = ncols (W1 ps)" "length (b2 g) = ncols (W2 ps)"
    by simp
  from ok have s: "ncols x = nrows (W1 ps)" "length (b1 ps) = ncols (W1 ps)"
    "nrows (W2 ps) = ncols (W1 ps)" "length (b2 ps) = ncols (W2 ps)"
    by (simp_all add: shapes_ok_def)
  have "\<exists>ps'. sgd_update lr bs g ps = Inr ps'"
    using sh s by (subst sgd_update_formula) simp_all
  with g show ?thesis by blast
qed

lemma run_batches_total:
  assumes "\<forall>(x, y)\<in>set batches. shapes_ok x y ps \<and> 0 < nrows x" and "0 < ncols (W2 ps)"
  shows "\<exists>ps'. run_batches lr bs forward_prop backward_prop batches ps = Inr ps' \<and>
    param_shapes ps' = param_shapes ps"
  using assms
proof (induction batches arbitrary: ps)
  case Nil
  show ?case by simp
next
  case (Cons b batches)
  obtain x y where b: "b = (x, y)" by (cases b)
  from Cons.prems b have ok: "shapes_ok x y ps" "0 < nrows x" by simp_all
  from step_total [OF ok Cons.prems(2), of forward_prop lr bs] obtain g p where
    g: "backward_prop x y ps forward_prop = Inr g" and p: "sgd_update lr bs g ps = Inr p"
    by blast
  note P = sgd_update_Inr [OF p]
  have "\<forall>(x, y)\<in>set batches. shapes_ok x y p \<and> 0 < nrows x"
    using Cons.prems(1) by (auto simp: shapes_ok_param_shapes [OF P(1)])
  moreover have "0 < ncols (W2 p)"
    using P(1) Cons.prems(2) by (simp add: param_shapes_def)
  ultimately obtain ps' where
    "run_batches lr bs forward_prop backward_prop batches p = Inr ps'"
    "param_shapes ps' = param_shapes p"
    using Cons.IH by blast
  with g p P(1) show ?case by (simp add: b)
qed

lemma ncols_batch_rows [simp]: "ncols (batch_rows m bs i) = ncols m"
  by (simp add: batch_rows_def)

lemma epoch_total:
  assumes ok: "shapes_ok train_data train_labels ps" and bs: "0 < bs"
    and c: "0 < ncols (W2 ps)"
  shows "\<exists>ps'. gradient_descent_epoch train_data train_labels lr (int bs) ps
      forward_prop backward_prop = Inr ps' \<and> param_shapes ps' = param_shapes ps"
proof -
  let ?k = "nrows train_labels div bs"
  let ?batches = "map (\<lambda>i. (batch_rows train_data bs i, batch_rows train_labels bs i)) [0..<?k]"
  from ok have n: "nrows train_labels = nrows train_data" by (simp add: shapes_ok_def)
  have "shapes_ok (batch_rows train_data bs i) (batch_rows train_labels bs i) ps \<and>
      0 < nrows (batch_rows train_data bs i)" if "i < ?k" for i
  proof -
    from that have "Suc i \<le> ?k" by simp
    then have "Suc i * bs \<le> ?k * bs" by (rule mult_le_mono1)
    also have "\<dots> \<le> nrows train_labels" by simp
    finally have le: "Suc i * bs \<le> nrows train_labels" .
    then have "nrows (batch_rows train_labels bs i) = bs"
      "nrows (batch_rows train_data bs i) = bs"
      using n by (simp_all add: nrows_batch_rows)
    with ok bs show ?thesis by (simp add: shapes_ok_def)
  qed
  then have "\<forall>(x, y)\<in>set ?batches. shapes_ok x y ps \<and> 0 < nrows x" by auto
  from run_batches_total [OF this c, of lr "int bs"]
  show ?thesis by (simp add: gradient_descent_epoch_batches [OF bs])
qed

theorem epoch_learning_rate_zero_witness:
  "gradient_descent_epoch
     \<lparr>ncols = 1, rows = [[1], [2], [3]]\<rparr> \<lparr>ncols = 2, rows = [[1, 0], [0, 1], [1, 0]]\<rparr> 0 2
     \<lparr>W1 = \<lparr>ncols = 1, rows = [[7]]\<rparr>, b1 = [1], W2 = \<lparr>ncols = 2, rows = [[3, 4]]\<rparr>,
      b2 = [5, 6]\<rparr>
     forward_prop backward_prop =
   Inr \<lparr>W1 = \<lparr>ncols = 1, rows = [[7]]\<rparr>, b1 = [1], W2 = \<lparr>ncols = 2, rows = [[3, 4]]\<rparr>,
        b2 = [5, 6]\<rparr>"
proof -
  let ?D = "\<lparr>ncols = 1, rows = [[1], [2], [3]]\<rparr>"
  let ?L = "\<lparr>ncols = 2, rows = [[1, 0], [0, 1], [1, 0]]\<rparr>"
  let ?P = "\<lparr>W1 = \<lparr>ncols = 1, rows = [[7]]\<rparr>, b1 = [1], W2 = \<lparr>ncols = 2, rows = [[3, 4]]\<rparr>,
      b2 = [5, 6]\<rparr>"
  have ok: "shapes_ok ?D ?L ?P" by (simp add: shapes_ok_def nrows_def)
  have wf: "wf_matrix (W1 ?P)" "wf_matrix (W2 ?P)" by (simp_all add: wf_matrix_def)
  from epoch_total [OF ok, of 2 0] obtain ps' where
    e: "gradient_descent_epoch ?D ?L 0 (int 2) ?P forward_prop backward_prop = Inr ps'"
    by auto
  from epoch_learning_rate_zero [OF wf e] e show ?thesis by simp
qed

section \<open>Degenerate batch sizes\<close>

lemma gradient_descent_epoch_zero:
  "gradient_descent_epoch train_data train_labels lr 0 ps fwd bwd = Inl ZeroDivisionError"
  by (simp add: gradient_descent_epoch_def py_int_truediv_def)

lemma gradient_descent_epoch_negative:
  assumes "batch_size < 0"
  shows "gradient_descent_epoch train_data train_labels lr batch_size ps fwd bwd = Inr ps"
proof -
  have "0 \<le> int (nrows train_labels) div (- batch_size)"
    using assms by (simp add: pos_imp_zdiv_nonneg_iff)
  then have "nat (- (int (nrows train_labels) div (- batch_size))) = 0" by simp
  with assms show ?thesis
    by (simp add: gradient_descent_epoch_def py_int_truediv_def)
qed

lemma gradient_descent_epoch_too_large:
  assumes "int (nrows train_labels) < batch_size"
  shows "gradient_descent_epoch train_data train_labels lr batch_size ps fwd bwd = Inr ps"
proof -
  from assms have "int (nrows train_labels) div batch_size = 0"
    by (simp add: div_pos_pos_trivial)
  moreover from assms have "0 < batch_size" by linarith
  ultimately show ?thesis
    by (simp add: gradient_descent_epoch_def py_int_truediv_def)
qed

lemma batch_rows_drop_remainder:
  assumes "i < n div bs"
  shows "batch_rows (drop_remainder n bs m) bs i = batch_rows m bs i"
proof -
  from assms have "Suc i \<le> n div bs" by simp
  then have "Suc i * bs \<le> (n div bs) * bs" by (rule mult_le_mono1)
  then have "bs \<le> bs * (n div bs) - i * bs" by (simp add: mult.commute)
  then have "min bs (bs * (n div bs) - i * bs) = bs" by simp
  then have "take bs (drop (i * bs) (take (bs * (n div bs)) (rows m))) =
      take bs (drop (i * bs) (rows m))"
    by (simp add: drop_take)
  then show ?thesis by (simp add: batch_rows_def drop_remainder_def)
qed

lemma gradient_descent_epoch_drop_remainder:
  assumes "0 < bs"
  shows "gradient_descent_epoch train_data train_labels lr (int bs) ps fwd bwd =
    gradient_descent_epoch
      (drop_remainder (nrows train_labels) bs train_data)
      (drop_remainder (nrows train_labels) bs train_labels) lr (int bs) ps fwd bwd"
proof -
  let ?n = "nrows train_labels"
  have "nrows (drop_remainder ?n bs train_labels) = bs * (?n div bs)"
    by (simp add: drop_remainder_def nrows_def)
  then have k: "nrows (drop_remainder ?n bs train_labels) div bs = ?n div bs"
    using assms by simp
  have m: "map (\<lambda>i. (batch_rows (drop_remainder ?n bs train_data) bs i,
                  batch_rows (drop_remainder ?n bs train_labels) bs i)) [0..<?n div bs] =
        map (\<lambda>i. (batch_rows train_data bs i, batch_rows train_labels bs i)) [0..<?n div bs]"
    by (simp add: batch_rows_drop_remainder)
  show ?thesis
    unfolding gradient_descent_epoch_batches [OF assms] k m by (rule refl)
qed

text \<open>
  Claim C3, as amended. A \<open>batch_size\<close> of zero makes the epoch fail, with Python's
  \<^verbatim>\<open>ZeroDivisionError\<close>. A negative \<open>batch_size\<close>, or one larger than the number of
  training rows, is not an error: the epoch makes no update and returns the parameters
  unchanged. A positive \<open>batch_size\<close> that does not divide the number of rows is not
  an error either: the epoch does what it does on the set without its trailing
  remainder rows, and on data that fits the parameters it returns.
\<close>

theorem batch_size_cases:
  "(batch_size = 0 \<longrightarrow>
      gradient_descent_epoch train_data train_labels lr batch_size ps fwd bwd =
        Inl ZeroDivisionError) \<and>
   (batch_size < 0 \<or> int (nrows train_labels) < batch_size \<longrightarrow>
      gradient_descent_epoch train_data train_labels lr batch_size ps fwd bwd = Inr ps) \<and>
   (0 < batch_size \<longrightarrow>
      gradient_descent_epoch train_data train_labels lr batch_size ps fwd bwd =
        gradient_descent_epoch
          (drop_remainder (nrows train_labels) (nat batch_size) train_data)
          (drop_remainder (nrows train_labels) (nat batch_size) train_labels)
          lr batch_size ps fwd bwd) \<and>
   (0 < batch_size \<and> shapes_ok train_data train_labels ps \<and> 0 < ncols (W2 ps) \<longrightarrow>
      (\<exists>ps'. gradient_descent_epoch train_data train_labels lr batch_size ps
          forward_prop backward_prop = Inr ps'))"
proof (intro conjI impI)
  assume "batch_size = 0"
  then show "gradient_descent_epoch train_data train_labels lr batch_size ps fwd bwd =
        Inl ZeroDivisionError"
    by (simp add: gradient_descent_epoch_zero)
next
  assume "batch_size < 0 \<or> int (nrows train_labels) < batch_size"
  then show "gradient_descent_epoch train_data train_labels lr batch_size ps fwd bwd = Inr ps"
    using gradient_descent_epoch_negative gradient_descent_epoch_too_large by blast
next
  assume "0 < batch_size"
  then have "0 < nat batch_size" "int (nat batch_size) = batch_size" by simp_all
  with gradient_descent_epoch_drop_remainder [of "nat batch_size" train_data train_labels lr ps fwd bwd]
  show "gradient_descent_epoch train_data train_labels lr batch_size ps fwd bwd =
        gradient_descent_epoch
          (drop_remainder (nrows train_labels) (nat batch_size) train_data)
          (drop_remainder (nrows train_labels) (nat batch_size) train_labels)
          lr batch_size ps fwd bwd"
    by simp
next
  assume a: "0 < batch_size \<and> shapes_ok train_data train_labels ps \<and> 0 < ncols (W2 ps)"
  then have "0 < nat batch_size" "int (nat batch_size) = batch_size" by simp_all
  with epoch_total [of train_data train_labels ps "nat batch_size" lr] a
  show "\<exists>ps'. gradient_descent_epoch train_data train_labels lr batch_size ps
          forward_prop backward_prop = Inr ps'"
    by auto
qed

theorem batch_size_cases_witness:
  "gradient_descent_epoch
     \<lparr>ncols = 1, rows = [[1], [2], [3]]\<rparr> \<lparr>ncols = 2, rows = [[1, 0], [0, 1], [1, 0]]\<rparr> 5 0
     \<lparr>W1 = \<lparr>ncols = 1, rows = [[7]]\<rparr>, b1 = [1], W2 = \<lparr>ncols = 2, rows = [[3, 4]]\<rparr>,
      b2 = [5, 6]\<rparr> forward_prop backward_prop = Inl ZeroDivisionError \<and>
   gradient_descent_epoch
     \<lparr>ncols = 1, rows = [[1], [2], [3]]\<rparr> \<lparr>ncols = 2, rows = [[1, 0], [0, 1], [1, 0]]\<rparr> 5 4
     \<lparr>W1 = \<lparr>ncols = 1, rows = [[7]]\<rparr>, b1 = [1], W2 = \<lparr>ncols = 2, rows = [[3, 4]]\<rparr>,
      b2 = [5, 6]\<rparr> forward_prop backward_prop =
   Inr \<lparr>W1 = \<lparr>ncols = 1, rows = [[7]]\<rparr>, b1 = [1], W2 = \<lparr>ncols = 2, rows = [[3, 4]]\<rparr>,
        b2 = [5, 6]\<rparr> \<and>
   gradient_descent_epoch
     \<lparr>ncols = 1, rows = [[1], [2], [3]]\<rparr> \<lparr>ncols = 2, rows = [[1, 0], [0, 1], [1, 0]]\<rparr> 5 2
     \<lparr>W1 = \<lparr>ncols = 1, rows = [[7]]\<rparr>, b1 = [1], W2 = \<lparr>ncols = 2, rows = [[3, 4]]\<rparr>,
      b2 = [5, 6]\<rparr> forward_prop backward_prop =
   gradient_descent_epoch
     \<lparr>ncols = 1, rows = [[1], [2]]\<rparr> \<lparr>ncols = 2, rows = [[1, 0], [0, 1]]\<rparr> 5 2
     \<lparr>W1 = \<lparr>ncols = 1, rows = [[7]]\<rparr>, b1 = [1], W2 = \<lparr>ncols = 2, rows = [[3, 4]]\<rparr>,
      b2 = [5, 6]\<rparr> forward_prop backward_prop \<and>
   (\<exists>ps'. gradient_descent_epoch
     \<lparr>ncols = 1, rows = [[1], [2], [3]]\<rparr> \<lparr>ncols = 2, rows = [[1, 0], [0, 1], [1, 0]]\<rparr> 5 2
     \<lparr>W1 = \<lparr>ncols = 1, rows = [[7]]\<rparr>, b1 = [1], W2 = \<lparr>ncols = 2, rows = [[3, 4]]\<rparr>,
      b2 = [5, 6]\<rparr> forward_prop backward_prop = Inr ps')"
proof -
  let ?D = "\<lparr>ncols = 1, rows = [[1], [2], [3]]\<rparr>"
  let ?L = "\<lparr>ncols = 2, rows = [[1, 0], [0, 1], [1, 0]]\<rparr>"
  let ?P = "\<lparr>W1 = \<lparr>ncols = 1, rows = [[7]]\<rparr>, b1 = [1], W2 = \<lparr>ncols = 2, rows = [[3, 4]]\<rparr>,
      b2 = [5, 6]\<rparr>"
  have ok: "shapes_ok ?D ?L ?P" by (simp add: shapes_ok_def nrows_def)
  have n: "nrows ?L = 3" by (simp add: nrows_def)
  have d: "(2::nat) * (3 div 2) = 2" by simp
  have a: "gradient_descent_epoch ?D ?L 5 0 ?P forward_prop backward_prop =
      Inl ZeroDivisionError"
    using batch_size_cases [of 0 ?D ?L 5 ?P forward_prop backward_prop] by simp
  have b: "gradient_descent_epoch ?D ?L 5 4 ?P forward_prop backward_prop = Inr ?P"
    using batch_size_cases [of 4 ?D ?L 5 ?P forward_prop backward_prop] n by simp
  have c: "gradient_descent_epoch ?D ?L 5 2 ?P forward_prop backward_prop =
      gradient_descent_epoch \<lparr>ncols = 1, rows = [[1], [2]]\<rparr>
        \<lparr>ncols = 2, rows = [[1, 0], [0, 1]]\<rparr> 5 2 ?P forward_prop backward_prop"
    using batch_size_cases [of 2 ?D ?L 5 ?P forward_prop backward_prop]
    by (simp add: n drop_remainder_def d)
  from batch_size_cases [of 2 ?D ?L 5 ?P forward_prop backward_prop]
  have "0 < (2::int) \<and> shapes_ok ?D ?L ?P \<and> 0 < ncols (W2 ?P) \<longrightarrow>
      (\<exists>ps'. gradient_descent_epoch ?D ?L 5 2 ?P forward_prop backward_prop = Inr ps')"
    by blast
  with ok have e:
    "\<exists>ps'. gradient_descent_epoch ?D ?L 5 2 ?P forward_prop backward_prop = Inr ps'"
    by simp
  from a b c e show ?thesis by blast
qed

text \<open>
  The claim as stated fails on the code: with three training rows, a \<open>batch_size\<close> of
  4 and a \<open>batch_size\<close> of \<open>-2\<close> both return normally, with the parameters unchanged.
\<close>

theorem batch_size_error_counterexample:
  "gradient_descent_epoch
     \<lparr>ncols = 1, rows = [[1], [2], [3]]\<rparr> \<lparr>ncols = 2, rows = [[1, 0], [0, 1], [1, 0]]\<rparr> 5 4
     \<lparr>W1 = \<lparr>ncols = 1, rows = [[7]]\<rparr>, b1 = [1], W2 = \<lparr>ncols = 2, rows = [[3, 4]]\<rparr>,
      b2 = [5, 6]\<rparr> forward_prop backward_prop =
   Inr \<lparr>W1 = \<lparr>ncols = 1, rows = [[7]]\<rparr>, b1 = [1], W2 = \<lparr>ncols = 2, rows = [[3, 4]]\<rparr>,
        b2 = [5, 6]\<rparr> \<and>
   gradient_descent_epoch
     \<lparr>ncols = 1, rows = [[1], [2], [3]]\<rparr> \<lparr>ncols = 2, rows = [[1, 0], [0, 1], [1, 0]]\<rparr> 5 (- 2)
     \<lparr>W1 = \<lparr>ncols = 1, rows = [[7]]\<rparr>, b1 = [1], W2 = \<lparr>ncols = 2, rows = [[3, 4]]\<rparr>,
      b2 = [5, 6]\<rparr> forward_prop backward_prop =
   Inr \<lparr>W1 = \<lparr>ncols = 1, rows = [[7]]\<rparr>, b1 = [1], W2 = \<lparr>ncols = 2, rows = [[3, 4]]\<rparr>,
        b2 = [5, 6]\<rparr>"
  by (simp add: gradient_descent_epoch_def py_int_truediv_def nrows_def)

section \<open>The training loop\<close>

lemma epoch_loop_shapes:
  assumes "epoch_loop train_data train_labels lr bs fwd bwd idxs ps = Inr ps'"
  shows "param_shapes ps' = param_shapes ps"
  using assms
proof (induction idxs arbitrary: ps)
  case Nil
  then show ?case by simp
next
  case (Cons i idxs)
  from Cons.prems obtain g p where
    up: "sgd_update lr bs g ps = Inr p" and
    rest: "epoch_loop train_data train_labels lr bs fwd bwd idxs p = Inr ps'"
    by (auto simp: Let_def ebind_eq_Inr)
  from Cons.IH [OF rest] sgd_update_Inr(1) [OF up] show ?case by simp
qed

lemma gradient_descent_epoch_shapes:
  assumes "gradient_descent_epoch train_data train_labels lr bs ps fwd bwd = Inr ps'"
  shows "param_shapes ps' = param_shapes ps"
proof -
  from assms obtain k where
    "epoch_loop train_data train_labels lr bs fwd bwd [0..<nat k] ps = Inr ps'"
    by (auto simp: gradient_descent_epoch_def ebind_eq_Inr)
  then show ?thesis by (rule epoch_loop_shapes)
qed

lemma train_loop_Inr:
  assumes "train_loop train_data train_labels dev_data dev_labels fwd bwd lr bs k
      (ps, ct, cd, atr, adv) = Inr (ps', ct', cd', atr', adv')"
  shows "length ct' = length ct + k \<and> length cd' = length cd + k \<and>
    length atr' = length atr + k \<and> length adv' = length adv + k \<and>
    param_shapes ps' = param_shapes ps"
  using assms
proof (induction k arbitrary: ps ct cd atr adv)
  case 0
  then show ?case by simp
next
  case (Suc k)
  from Suc.prems obtain p cost acc cost' acc' where
    ep: "gradient_descent_epoch train_data train_labels lr bs ps fwd bwd = Inr p" and
    rest: "train_loop train_data train_labels dev_data dev_labels fwd bwd lr bs k
      (p, ct @ [cost], cd @ [cost'], atr @ [acc], adv @ [acc']) = Inr (ps', ct', cd', atr', adv')"
    by (auto simp: ebind_eq_Inr)
  from Suc.IH [OF rest] gradient_descent_epoch_shapes [OF ep] show ?case by simp
qed

lemma compute_accuracy_total:
  assumes "0 < ncols output" and "0 < ncols labels" and "nrows output = nrows labels"
    and "0 < nrows labels"
  shows "\<exists>acc. compute_accuracy output labels = Inr acc"
  using assms by (simp add: compute_accuracy_def argmax_axis1_def count_equal_def)

lemma evaluate_total:
  assumes ok: "shapes_ok x y ps" and n: "0 < nrows x" and c: "0 < ncols (W2 ps)"
  shows "\<exists>h output cost acc. forward_prop x y ps = Inr (h, output, cost) \<and>
    compute_accuracy output y = Inr acc"
proof -
  from forward_prop_total [OF ok n c] obtain a1 a2 loss
    where fw: "forward_prop x y ps = Inr (a1, a2, loss)" by blast
  note F = forward_prop_Inr [OF fw]
  from ok have s: "nrows y = nrows x" "length (b2 ps) = ncols (W2 ps)"
    "ncols y = ncols (W2 ps)"
    by (simp_all add: shapes_ok_def)
  have "ncols a2 = ncols (W2 ps)" using F(6) s by simp
  with F(5) s n c have "\<exists>acc. compute_accuracy a2 y = Inr acc"
    by (intro compute_accuracy_total) simp_all
  with fw show ?thesis by blast
qed

lemma train_loop_total:
  assumes tr: "shapes_ok train_data train_labels ps" and ntr: "0 < nrows train_data"
    and dv: "shapes_ok dev_data dev_labels ps" and ndv: "0 < nrows dev_data"
    and c: "0 < ncols (W2 ps)" and bs: "0 < bs"
  shows "\<exists>st'. train_loop train_data train_labels dev_data dev_labels
      forward_prop backward_prop lr (int bs) k (ps, ct, cd, atr, adv) = Inr st'"
  using tr dv c
proof (induction k arbitrary: ps ct cd atr adv)
  case 0
  show ?case by simp
next
  case (Suc k)
  from epoch_total [OF Suc.prems(1) bs Suc.prems(3), of lr] obtain p where
    ep: "gradient_descent_epoch train_data train_labels lr (int bs) ps
      forward_prop backward_prop = Inr p" and sh: "param_shapes p = param_shapes ps"
    by blast
  have tr': "shapes_ok train_data train_labels p" and dv': "shapes_ok dev_data dev_labels p"
    using Suc.prems by (simp_all add: shapes_ok_param_shapes [OF sh])
  have c': "0 < ncols (W2 p)" using sh Suc.prems(3) by (simp add: param_shapes_def)
  from evaluate_total [OF tr' ntr c'] obtain h outp cost acc where
    e1: "forward_prop train_data train_labels p = Inr (h, outp, cost)"
      "compute_accuracy outp train_labels = Inr acc" by blast
  from evaluate_total [OF dv' ndv c'] obtain h' outp' cost' acc' where
    e2: "forward_prop dev_data dev_labels p = Inr (h', outp', cost')"
      "compute_accuracy outp' dev_labels = Inr acc'" by blast
  from Suc.IH [OF tr' dv' c'] show ?case
    by (simp add: ep e1 e2)
qed
lemma get_initial_params_shapes:
  assumes "0 \<le> h"
  shows "\<exists>ps. get_initial_params draws (int d) h 10 = Inr ps \<and>
    param_shapes ps = ((d, nat h), nat h, (nat h, 10), 10)"
  using assms by (simp add: get_initial_params_def param_shapes_def Let_def)

lemma get_initial_params_Inr:
  assumes "get_initial_params draws (int d) h c = Inr ps"
  shows "param_shapes ps = ((d, nat h), nat h, (nat h, nat c), nat c)"
  using assms by (auto simp: get_initial_params_def param_shapes_def Let_def split: if_splits)

lemma nn_train_total:
  assumes "0 \<le> h" and "0 < bs"
    and "nrows train_labels = nrows train_data" and "0 < nrows train_data"
    and "ncols train_labels = 10"
    and "ncols dev_data = ncols train_data" and "nrows dev_labels = nrows dev_data"
    and "0 < nrows dev_data" and "ncols dev_labels = 10"
  shows "\<exists>res. nn_train train_data train_labels dev_data dev_labels
      (get_initial_params draws) forward_prop backward_prop h lr num_epochs bs = Inr res"
proof -
  from get_initial_params_shapes [OF assms(1), of draws "ncols train_data"] obtain ps where
    ps: "get_initial_params draws (int (ncols train_data)) h 10 = Inr ps" and
    sh: "param_shapes ps = ((ncols train_data, nat h), nat h, (nat h, 10), 10)"
    by blast
  have tr: "shapes_ok train_data train_labels ps" and dv: "shapes_ok dev_data dev_labels ps"
    and c: "0 < ncols (W2 ps)"
    using sh assms by (simp_all add: param_shapes_def shapes_ok_def)
  from assms(2) have b: "0 < nat bs" "int (nat bs) = bs" by simp_all
  from train_loop_total [OF tr assms(4) dv assms(8) c b(1), of lr "nat num_epochs" "[]" "[]" "[]" "[]"]
  obtain st where "train_loop train_data train_labels dev_data dev_labels
      forward_prop backward_prop lr bs (nat num_epochs) (ps, [], [], [], []) = Inr st"
    unfolding b(2) by blast
  then show ?thesis by (cases st) (simp add: nn_train_def ps Let_def)
qed

text \<open>
  Claim C8. With \<open>num_epochs = 0\<close> the training loop returns the parameters its
  initializer produced, untouched by any optimizer step, and four empty metric
  sequences. For a positive \<open>num_epochs\<close>, whenever the loop returns, each of the four
  metric sequences has exactly \<open>num_epochs\<close> entries; and with the module's own
  initializer, forward and backward pass, on data whose shapes fit (ten classes), it
  does return.
\<close>

theorem nn_train_epochs:
  "(\<forall>ps0. initf (int (ncols train_data)) h 10 = Inr ps0 \<longrightarrow>
      nn_train train_data train_labels dev_data dev_labels initf fwd bwd h lr 0 bs =
        Inr (ps0, [], [], [], [])) \<and>
   (\<forall>ps ct cd atr adv.
      0 < num_epochs \<and>
      nn_train train_data train_labels dev_data dev_labels initf fwd bwd h lr num_epochs bs =
        Inr (ps, ct, cd, atr, adv) \<longrightarrow>
      int (length ct) = num_epochs \<and> int (length cd) = num_epochs \<and>
      int (length atr) = num_epochs \<and> int (length adv) = num_epochs) \<and>
   (0 \<le> h \<and> 0 < bs \<and> nrows train_labels = nrows train_data \<and> 0 < nrows train_data \<and>
    ncols train_labels = 10 \<and> ncols dev_data = ncols train_data \<and>
    nrows dev_labels = nrows dev_data \<and> 0 < nrows dev_data \<and> ncols dev_labels = 10 \<longrightarrow>
      (\<exists>res. nn_train train_data train_labels dev_data dev_labels
          (get_initial_params draws) forward_prop backward_prop h lr num_epochs bs = Inr res))"
proof (intro conjI allI impI)
  fix ps0 assume "initf (int (ncols train_data)) h 10 = Inr ps0"
  then show "nn_train train_data train_labels dev_data dev_labels initf fwd bwd h lr 0 bs =
        Inr (ps0, [], [], [], [])"
    by (simp add: nn_train_def Let_def)
next
  fix ps ct cd atr adv
  assume a: "0 < num_epochs \<and>
      nn_train train_data train_labels dev_data dev_labels initf fwd bwd h lr num_epochs bs =
        Inr (ps, ct, cd, atr, adv)"
  then obtain ps0 where
    "train_loop train_data train_labels dev_data dev_labels fwd bwd lr bs (nat num_epochs)
      (ps0, [], [], [], []) = Inr (ps, ct, cd, atr, adv)"
    by (auto simp: nn_train_def Let_def ebind_eq_Inr)
  from train_loop_Inr [OF this] a
  show "int (length ct) = num_epochs" "int (length cd) = num_epochs"
    "int (length atr) = num_epochs" "int (length adv) = num_epochs"
    by simp_all
next
  assume "0 \<le> h \<and> 0 < bs \<and> nrows train_labels = nrows train_data \<and> 0 < nrows train_data \<and>
    ncols train_labels = 10 \<and> ncols dev_data = ncols train_data \<and>
    nrows dev_labels = nrows dev_data \<and> 0 < nrows dev_data \<and> ncols dev_labels = 10"
  then show "\<exists>res. nn_train train_data train_labels dev_data dev_labels
          (get_initial_params draws) forward_prop backward_prop h lr num_epochs bs = Inr res"
    by (intro nn_train_total) simp_all
qed

theorem nn_train_epochs_witness:
  "(\<exists>ps. nn_train
      \<lparr>ncols = 1, rows = [[1], [2]]\<rparr>
      \<lparr>ncols = 10, rows = [[1, 0, 0, 0, 0, 0, 0, 0, 0, 0], [0, 0, 0, 1, 0, 0, 0, 0, 0, 0]]\<rparr>
      \<lparr>ncols = 1, rows = [[3]]\<rparr>
      \<lparr>ncols = 10, rows = [[0, 1, 0, 0, 0, 0, 0, 0, 0, 0]]\<rparr>
      (get_initial_params (\<lambda>k. real k)) forward_prop backward_prop 3 5 0 1 =
    Inr (ps, [], [], [], [])) \<and>
   (\<exists>ps ct cd atr adv. nn_train
      \<lparr>ncols = 1, rows = [[1], [2]]\<rparr>
      \<lparr>ncols = 10, rows = [[1, 0, 0, 0, 0, 0, 0, 0, 0, 0], [0, 0, 0, 1, 0, 0, 0, 0, 0, 0]]\<rparr>
      \<lparr>ncols = 1, rows = [[3]]\<rparr>
      \<lparr>ncols = 10, rows = [[0, 1, 0, 0, 0, 0, 0, 0, 0, 0]]\<rparr>
      (get_initial_params (\<lambda>k. real k)) forward_prop backward_prop 3 5 2 1 =
    Inr (ps, ct, cd, atr, adv) \<and>
    length ct = 2 \<and> length cd = 2 \<and> length atr = 2 \<and> length adv = 2)"
proof -
  let ?X = "\<lparr>ncols = 1, rows = [[1], [2]]\<rparr>"
  let ?L = "\<lparr>ncols = 10, rows = [[1, 0, 0, 0, 0, 0, 0, 0, 0, 0], [0, 0, 0, 1, 0, 0, 0, 0, 0, 0]]\<rparr>"
  let ?Xd = "\<lparr>ncols = 1, rows = [[3]]\<rparr>"
  let ?Ld = "\<lparr>ncols = 10, rows = [[0, 1, 0, 0, 0, 0, 0, 0, 0, 0]]\<rparr>"
  let ?init = "get_initial_params (\<lambda>k. real k)"
  note T0 = nn_train_epochs [of ?init ?X 3 ?L ?Xd ?Ld forward_prop backward_prop 5 1 0
      "\<lambda>k. real k"]
  note T2 = nn_train_epochs [of ?init ?X 3 ?L ?Xd ?Ld forward_prop backward_prop 5 1 2
      "\<lambda>k. real k"]
  obtain ps0 where i: "?init (int (ncols ?X)) 3 10 = Inr ps0"
    using get_initial_params_shapes [of 3 "\<lambda>k. real k" "ncols ?X"] by auto
  from T0 i have a: "nn_train ?X ?L ?Xd ?Ld ?init forward_prop backward_prop 3 5 0 1 =
      Inr (ps0, [], [], [], [])"
    by blast
  have h: "0 \<le> (3::int) \<and> 0 < (1::int) \<and> nrows ?L = nrows ?X \<and> 0 < nrows ?X \<and>
    ncols ?L = 10 \<and> ncols ?Xd = ncols ?X \<and> nrows ?Ld = nrows ?Xd \<and> 0 < nrows ?Xd \<and>
    ncols ?Ld = 10"
    by (simp add: nrows_def)
  with T2 obtain res where
    "nn_train ?X ?L ?Xd ?Ld ?init forward_prop backward_prop 3 5 2 1 = Inr res"
    by blast
  then obtain ps ct cd atr adv where
    r: "nn_train ?X ?L ?Xd ?Ld ?init forward_prop backward_prop 3 5 2 1 =
      Inr (ps, ct, cd, atr, adv)"
    by (cases res) auto
  with T2 have "int (length ct) = 2 \<and> int (length cd) = 2 \<and>
      int (length atr) = 2 \<and> int (length adv) = 2"
    by simp
  with r a show ?thesis by auto
qed

text \<open>
  Claim C9, as amended. The training loop fixes the number of classes at ten: it calls
  the initializer with \<open>(dim, num_hidden, 10)\<close>, so with the module's initializer the
  parameters it initializes, and the parameters it returns after any number of
  epochs, have \<open>W2\<close> of shape \<open>H \<times> 10\<close> and \<open>b2\<close> of length 10 (and \<open>W1\<close> of shape
  \<open>D \<times> H\<close>, \<open>b1\<close> of length \<open>H\<close>), whatever the number of columns of the label matrix.
\<close>

theorem nn_train_ten_classes:
  "(\<forall>ps0. get_initial_params draws (int (ncols train_data)) h 10 = Inr ps0 \<longrightarrow>
      nn_train train_data train_labels dev_data dev_labels (get_initial_params draws)
        fwd bwd h lr 0 bs = Inr (ps0, [], [], [], []) \<and>
      param_shapes ps0 = ((ncols train_data, nat h), nat h, (nat h, 10), 10)) \<and>
   (\<forall>ps ct cd atr adv.
      nn_train train_data train_labels dev_data dev_labels (get_initial_params draws)
        fwd bwd h lr num_epochs bs = Inr (ps, ct, cd, atr, adv) \<longrightarrow>
      param_shapes ps = ((ncols train_data, nat h), nat h, (nat h, 10), 10))"
proof (intro conjI allI impI)
  fix ps0 assume i: "get_initial_params draws (int (ncols train_data)) h 10 = Inr ps0"
  then show "nn_train train_data train_labels dev_data dev_labels (get_initial_params draws)
        fwd bwd h lr 0 bs = Inr (ps0, [], [], [], [])"
    by (simp add: nn_train_def Let_def)
  from get_initial_params_Inr [OF i]
  show "param_shapes ps0 = ((ncols train_data, nat h), nat h, (nat h, 10), 10)" by simp
next
  fix ps ct cd atr adv
  assume "nn_train train_data train_labels dev_data dev_labels (get_initial_params draws)
        fwd bwd h lr num_epochs bs = Inr (ps, ct, cd, atr, adv)"
  then obtain ps0 where
    i: "get_initial_params draws (int (ncols train_data)) h 10 = Inr ps0" and
    t: "train_loop train_data train_labels dev_data dev_labels fwd bwd lr bs (nat num_epochs)
      (ps0, [], [], [], []) = Inr (ps, ct, cd, atr, adv)"
    by (auto simp: nn_train_def Let_def ebind_eq_Inr)
  from train_loop_Inr [OF t] get_initial_params_Inr [OF i]
  show "param_shapes ps = ((ncols train_data, nat h), nat h, (nat h, 10), 10)" by simp
qed

theorem nn_train_ten_classes_witness:
  "\<exists>ps. nn_train
      \<lparr>ncols = 1, rows = [[1], [2]]\<rparr> \<lparr>ncols = 2, rows = [[1, 0], [0, 1]]\<rparr>
      \<lparr>ncols = 1, rows = [[3]]\<rparr> \<lparr>ncols = 2, rows = [[0, 1]]\<rparr>
      (get_initial_params (\<lambda>k. real k)) forward_prop backward_prop 3 5 0 1 =
    Inr (ps, [], [], [], []) \<and>
    param_shapes ps = ((1, 3), 3, (3, 10), 10)"
proof -
  let ?X = "\<lparr>ncols = 1, rows = [[1], [2]]\<rparr>"
  let ?L = "\<lparr>ncols = 2, rows = [[1, 0], [0, 1]]\<rparr>"
  let ?Xd = "\<lparr>ncols = 1, rows = [[3]]\<rparr>"
  let ?Ld = "\<lparr>ncols = 2, rows = [[0, 1]]\<rparr>"
  note T = nn_train_ten_classes [of "\<lambda>k. real k" ?X 3 ?L ?Xd ?Ld forward_prop backward_prop 5 1 0]
  obtain ps0 where i: "get_initial_params (\<lambda>k. real k) (int (ncols ?X)) 3 10 = Inr ps0"
    using get_initial_params_shapes [of 3 "\<lambda>k. real k" "ncols ?X"] by auto
  with T have "nn_train ?X ?L ?Xd ?Ld (get_initial_params (\<lambda>k. real k))
        forward_prop backward_prop 3 5 0 1 = Inr (ps0, [], [], [], []) \<and>
      param_shapes ps0 = ((ncols ?X, nat 3), nat 3, (nat 3, 10), 10)"
    by blast
  then show ?thesis by simp
qed

text \<open>
  The claim as stated fails on the code: for a label matrix with two classes the
  parameters initialized still have \<open>W2\<close> with ten columns and \<open>b2\<close> of length ten.
\<close>

theorem class_count_agnostic_counterexample:
  "\<exists>ps. nn_train
      \<lparr>ncols = 1, rows = [[1], [2]]\<rparr> \<lparr>ncols = 2, rows = [[1, 0], [0, 1]]\<rparr>
      \<lparr>ncols = 1, rows = [[3]]\<rparr> \<lparr>ncols = 2, rows = [[0, 1]]\<rparr>
      (get_initial_params (\<lambda>k. real k)) forward_prop backward_prop 3 5 0 1 =
    Inr (ps, [], [], [], []) \<and>
    ncols \<lparr>ncols = 2, rows = [[1, 0], [0, 1]]\<rparr> = 2 \<and>
    ncols (W2 ps) = 10 \<and> length (b2 ps) = 10 \<and>
    ncols (W2 ps) \<noteq> ncols \<lparr>ncols = 2, rows = [[1, 0], [0, 1]]\<rparr>"
  by (simp add: nn_train_def get_initial_params_def Let_def)

section \<open>Rounding to the nearest float\<close>

text \<open>
  Rounding is monotone, leaves a float unchanged, and so keeps a value between two
  floats between them.
\<close>

lemma round_even_cases:
  "round_even y = \<lfloor>y\<rfloor> \<and> y - of_int \<lfloor>y\<rfloor> \<le> 1 / 2 \<or>
   round_even y = \<lfloor>y\<rfloor> + 1 \<and> 1 / 2 \<le> y - of_int \<lfloor>y\<rfloor>"
  by (auto simp: round_even_def Let_def)

lemma round_even_ge: "of_int k \<le> y \<Longrightarrow> k \<le> round_even y"
proof -
  assume "of_int k \<le> y"
  then have "k \<le> \<lfloor>y\<rfloor>" by (simp add: le_floor_iff)
  with round_even_cases [of y] show ?thesis by auto
qed

lemma round_even_le: "y \<le> of_int k \<Longrightarrow> round_even y \<le> k"
proof -
  assume a: "y \<le> of_int k"
  show ?thesis
  proof (cases "y = of_int k")
    case True
    then show ?thesis by (simp add: round_even_def)
  next
    case False
    with a have "y < of_int k" by simp
    then have "\<lfloor>y\<rfloor> < k" by (simp add: floor_less_iff)
    with round_even_cases [of y] show ?thesis by auto
  qed
qed

lemma round_even_of_int [simp]: "round_even (of_int k) = k"
  by (simp add: round_even_def)


lemma round_even_mono: "y \<le> y' \<Longrightarrow> round_even y \<le> round_even y'"
proof -
  assume a: "y \<le> y'"
  then have f: "\<lfloor>y\<rfloor> \<le> \<lfloor>y'\<rfloor>" by (rule floor_mono)
  show ?thesis
  proof (cases "\<lfloor>y\<rfloor> = \<lfloor>y'\<rfloor>")
    case True
    with a show ?thesis by (auto simp: round_even_def Let_def)
  next
    case False
    with f have "\<lfloor>y\<rfloor> + 1 \<le> \<lfloor>y'\<rfloor>" by simp
    with round_even_cases [of y] round_even_cases [of y'] show ?thesis by auto
  qed
qed

lemma powr_powi: "(2::real) powr of_int k = 2 powi k"
  by (simp add: powr_real_of_int')

lemma binade:
  assumes "0 < x"
  shows "2 powi \<lfloor>log 2 x\<rfloor> \<le> x" "x < 2 powi (\<lfloor>log 2 x\<rfloor> + 1)"
proof -
  have "2 powr of_int \<lfloor>log 2 x\<rfloor> \<le> x \<and> x < 2 powr (of_int \<lfloor>log 2 x\<rfloor> + 1)"
    using floor_log_eq_powr_iff [of x 2 "\<lfloor>log 2 x\<rfloor>"] assms by simp
  moreover have "(2::real) powr (of_int \<lfloor>log 2 x\<rfloor> + 1) = 2 powi (\<lfloor>log 2 x\<rfloor> + 1)"
    using powr_powi [of "\<lfloor>log 2 x\<rfloor> + 1"] by simp
  ultimately show "2 powi \<lfloor>log 2 x\<rfloor> \<le> x" "x < 2 powi (\<lfloor>log 2 x\<rfloor> + 1)"
    by (simp_all add: powr_powi)
qed


lemma nearest_zero [simp]: "nearest 0 = 0"
  by (simp add: nearest_def)

lemma ulp_exp_minus [simp]: "ulp_exp (- x) = ulp_exp x"
  by (simp add: ulp_exp_def)

lemma nearest_minus: "nearest (- x) = - nearest x"
  by (simp add: nearest_def sgn_minus)

lemma nearest_pos:
  "0 < x \<Longrightarrow> nearest x = of_int (round_even (x / 2 powi ulp_exp x)) * 2 powi ulp_exp x"
  by (simp add: nearest_def)

lemma nearest_le_grid:
  assumes "0 < x" and "x \<le> of_int n * 2 powi ulp_exp x"
  shows "nearest x \<le> of_int n * 2 powi ulp_exp x"
proof -
  have p: "(0::real) < 2 powi ulp_exp x" by simp
  from assms(2) p have "x / 2 powi ulp_exp x \<le> of_int n"
    by (simp add: pos_divide_le_eq)
  then have "round_even (x / 2 powi ulp_exp x) \<le> n" by (rule round_even_le)
  then have "real_of_int (round_even (x / 2 powi ulp_exp x)) \<le> of_int n" by simp
  with p show ?thesis
    unfolding nearest_pos [OF assms(1)] by (simp add: mult_right_mono)
qed

lemma nearest_ge_grid:
  assumes "0 < x" and "of_int n * 2 powi ulp_exp x \<le> x"
  shows "of_int n * 2 powi ulp_exp x \<le> nearest x"
proof -
  have p: "(0::real) < 2 powi ulp_exp x" by simp
  from assms(2) p have "of_int n \<le> x / 2 powi ulp_exp x"
    by (simp add: pos_le_divide_eq)
  then have "n \<le> round_even (x / 2 powi ulp_exp x)" by (rule round_even_ge)
  then have "real_of_int n \<le> of_int (round_even (x / 2 powi ulp_exp x))" by simp
  with p show ?thesis
    unfolding nearest_pos [OF assms(1)] by (simp add: mult_right_mono)
qed

lemma nearest_nonneg: "0 \<le> x \<Longrightarrow> 0 \<le> nearest x"
proof (cases "x = 0")
  case True
  then show ?thesis by simp
next
  case False
  assume "0 \<le> x"
  with False have x: "0 < x" by simp
  from nearest_ge_grid [OF x, of 0] x show ?thesis by simp
qed

lemma ulp_exp_mono:
  assumes "0 < x" and "x \<le> y"
  shows "ulp_exp x \<le> ulp_exp y"
proof -
  have "log 2 x \<le> log 2 y" using assms by simp
  then have "\<lfloor>log 2 x\<rfloor> \<le> \<lfloor>log 2 y\<rfloor>" by (rule floor_mono)
  with assms show ?thesis by (simp add: ulp_exp_def)
qed

lemma powi_grid:
  assumes "e \<le> k"
  shows "(2::real) powi k = of_int (2 ^ nat (k - e)) * 2 powi e"
proof -
  have "(2::real) powi k = 2 powi (k - e) * 2 powi e"
    by (simp flip: power_int_add)
  moreover have "(2::real) powi (k - e) = 2 ^ nat (k - e)"
    using assms by (simp add: power_int_def)
  ultimately show ?thesis by simp
qed

lemma nearest_mono_pos:
  assumes "0 < x" and "x \<le> y"
  shows "nearest x \<le> nearest y"
proof -
  have y: "0 < y" using assms by simp
  have le: "ulp_exp x \<le> ulp_exp y" using assms by (rule ulp_exp_mono)
  show ?thesis
  proof (cases "ulp_exp x = ulp_exp y")
    case True
    have "x / 2 powi ulp_exp y \<le> y / 2 powi ulp_exp y"
      using assms(2) by (simp add: divide_right_mono)
    then have "round_even (x / 2 powi ulp_exp y) \<le> round_even (y / 2 powi ulp_exp y)"
      by (rule round_even_mono)
    then have "real_of_int (round_even (x / 2 powi ulp_exp y)) \<le>
        of_int (round_even (y / 2 powi ulp_exp y))" by simp
    then show ?thesis
      unfolding nearest_pos [OF assms(1)] nearest_pos [OF y] True
      by (simp add: mult_right_mono)
  next
    case False
    with le have lt: "ulp_exp x < ulp_exp y" by simp
    let ?K = "\<lfloor>log 2 y\<rfloor>"
    from lt have ey: "ulp_exp y = ?K - 52" and kx: "\<lfloor>log 2 x\<rfloor> < ?K"
      using assms y by (auto simp: ulp_exp_def max_def split: if_splits)
    have "x < 2 powi (\<lfloor>log 2 x\<rfloor> + 1)" using binade(2) [OF assms(1)] .
    also have "\<dots> \<le> 2 powi ?K" using kx by (intro power_int_increasing) simp_all
    finally have xK: "x \<le> 2 powi ?K" by simp
    have Ky: "2 powi ?K \<le> y" using binade(1) [OF y] .
    have gy: "(2::real) powi ?K = of_int (2 ^ nat (?K - ulp_exp y)) * 2 powi ulp_exp y"
      by (rule powi_grid) (simp add: ey)
    have gx: "(2::real) powi ?K = of_int (2 ^ nat (?K - ulp_exp x)) * 2 powi ulp_exp x"
      by (rule powi_grid) (use lt ey in simp)
    have "nearest x \<le> 2 powi ?K"
      using nearest_le_grid [OF assms(1), of "2 ^ nat (?K - ulp_exp x)"] xK gx by simp
    moreover have "2 powi ?K \<le> nearest y"
      using nearest_ge_grid [OF y, of "2 ^ nat (?K - ulp_exp y)"] Ky gy by simp
    ultimately show ?thesis by simp
  qed
qed

lemma nearest_mono: "x \<le> y \<Longrightarrow> nearest x \<le> nearest y"
proof -
  assume a: "x \<le> y"
  consider "0 < x" | "x \<le> 0" "0 \<le> y" | "y < 0" by linarith
  then show ?thesis
  proof cases
    case 1
    then show ?thesis using a by (rule nearest_mono_pos)
  next
    case 2
    have "nearest x \<le> 0" using nearest_nonneg [of "- x"] 2(1) by (simp add: nearest_minus)
    moreover have "0 \<le> nearest y" using 2(2) by (rule nearest_nonneg)
    ultimately show ?thesis by simp
  next
    case 3
    then have "0 < - y" "- y \<le> - x" using a by simp_all
    then have "nearest (- y) \<le> nearest (- x)" by (rule nearest_mono_pos)
    then show ?thesis by (simp add: nearest_minus)
  qed
qed

lemma floor_log_less:
  assumes "0 < x" and "x < 2 powi j"
  shows "\<lfloor>log 2 x\<rfloor> < j"
proof (rule ccontr)
  assume "\<not> \<lfloor>log 2 x\<rfloor> < j"
  then have "j \<le> \<lfloor>log 2 x\<rfloor>" by simp
  then have "(2::real) powi j \<le> 2 powi \<lfloor>log 2 x\<rfloor>"
    by (intro power_int_increasing) simp_all
  with binade(1) [OF assms(1)] assms(2) show False by simp
qed

lemma nearest_fix_pos:
  assumes "0 < r" and "r = of_int m * 2 powi e0" and "m < 2 ^ 53" and "- 1074 \<le> e0"
  shows "nearest r = r"
proof -
  have "r < 2 ^ 53 * 2 powi e0"
    using assms(2,3) by (simp add: mult_strict_right_mono)
  also have "\<dots> = 2 powi (e0 + 53)"
    by (simp add: power_int_add)
  finally have "\<lfloor>log 2 r\<rfloor> < e0 + 53" using assms(1) by (intro floor_log_less)
  with assms(1,4) have le: "ulp_exp r \<le> e0" by (simp add: ulp_exp_def)
  have "(2::real) powi e0 = of_int (2 ^ nat (e0 - ulp_exp r)) * 2 powi ulp_exp r"
    using le by (rule powi_grid)
  then have g: "r = of_int (m * 2 ^ nat (e0 - ulp_exp r)) * 2 powi ulp_exp r"
    using assms(2) by simp
  have "nearest r \<le> r"
    using nearest_le_grid [OF assms(1), of "m * 2 ^ nat (e0 - ulp_exp r)"] g by simp
  moreover have "r \<le> nearest r"
    using nearest_ge_grid [OF assms(1), of "m * 2 ^ nat (e0 - ulp_exp r)"] g by simp
  ultimately show ?thesis by simp
qed



lemma is_f64_int:
  assumes "\<bar>n\<bar> < 2 ^ 53"
  shows "is_f64 (of_int n)"
proof -
  have "real_of_int n = of_int n * 2 powi 0" by simp
  moreover have "\<bar>real_of_int n\<bar> < 2 ^ 1024"
  proof -
    have "\<bar>real_of_int n\<bar> < 2 ^ 53" using assms
      by (metis of_int_abs of_int_less_numeral_power_cancel_iff)
    also have "\<dots> \<le> (2::real) ^ 1024" by (intro power_increasing) simp_all
    finally show ?thesis .
  qed
  ultimately show ?thesis
    unfolding is_f64_def using assms by (intro conjI exI [of _ n] exI [of _ 0]) simp_all
qed



lemma is_f64_two [simp]: "is_f64 2"
  using is_f64_int [of 2] by simp

lemma is_f64_half [simp]: "is_f64 (1 / 2)"
proof -
  have "(1 / 2 :: real) = of_int 1 * 2 powi (- 1)" by (simp add: power_int_minus)
  then show ?thesis
    unfolding is_f64_def by (intro conjI exI [of _ 1] exI [of _ "- 1"]) simp_all
qed

section \<open>The sigmoid on floats\<close>















lemma two_power_le_exp: "2 ^ n \<le> exp (real n)"
proof -
  have "(2::real) \<le> exp 1" using exp_ge_add_one_self [of "1::real"] by simp
  then have "(2::real) ^ n \<le> exp 1 ^ n" by (intro power_mono) simp_all
  also have "\<dots> = exp (real n)" using exp_of_nat_mult [of n "1::real"] by simp
  finally show ?thesis .
qed







lemma exp_cr_2000: "exp_cr (Fin 2000) = PInf"
proof -
  have "(2::real) ^ 1024 \<le> 2 ^ 2000" by (intro power_increasing) simp_all
  also have "\<dots> \<le> exp (real 2000)" by (rule two_power_le_exp)
  finally have "(2::real) ^ 1024 \<le> exp 2000" by simp
  then have "nearest (2 ^ 1024) \<le> nearest (exp 2000)" by (rule nearest_mono)
  moreover have "nearest (2 ^ 1024) = 2 ^ 1024"
    by (rule nearest_fix_pos [where m = 1 and ?e0.0 = 1024]) simp_all
  ultimately show ?thesis by (simp add: rnd_def Let_def)
qed

text \<open>
  The formula of the negative entries, used at a large positive entry, does not return a
  number: the exponential overflows, and \<open>inf / inf\<close> is \<^verbatim>\<open>nan\<close>.
\<close>

lemma swapped_formula_overflows:
  "fdiv (exp_cr (Fin 2000)) (fadd (Fin 1) (exp_cr (Fin 2000))) = NaN"
  unfolding exp_cr_2000 by simp







section \<open>The rounding error\<close>


section \<open>The sum from left to right\<close>



section \<open>The softmax on floats\<close>









lemma f_less_Fin: "f_less (Fin m) (Fin a) \<longleftrightarrow> m < a"
  by simp









end
